theory Spec2Isabelle
  imports Main
begin

section \<open>Python values\<close>

text \<open>
  The values that travel through the views: what \<^verbatim>\<open>json.loads\<close> can produce, what a
  form or a serializer hands over, and what a column of the database holds. Numbers are
  the integers; a reference to another row is the integer primary key of that row, as in
  Django's \<^verbatim>\<open>user_id\<close> columns; dates and times are kept in their textual form.
\<close>

datatype pyval =
    PNone
  | PBool bool
  | PInt int
  | PStr string
  | PList "pyval list"
  | PDict "(string \<times> pyval) list"

text \<open>Python's truth value of an object, as used by \<^verbatim>\<open>not x\<close>, \<^verbatim>\<open>x and y\<close>, \<^verbatim>\<open>x or y\<close>.\<close>

fun truthy :: "pyval \<Rightarrow> bool" where
  "truthy PNone = False"
| "truthy (PBool b) = b"
| "truthy (PInt i) = (i \<noteq> 0)"
| "truthy (PStr s) = (s \<noteq> [])"
| "truthy (PList xs) = (xs \<noteq> [])"
| "truthy (PDict kvs) = (kvs \<noteq> [])"

text \<open>\<^verbatim>\<open>x or None\<close>\<close>

definition or_None :: "pyval \<Rightarrow> pyval" where
  "or_None x = (if truthy x then x else PNone)"

text \<open>\<^verbatim>\<open>d.get(k)\<close> on the items of a dictionary: the value, or \<^verbatim>\<open>None\<close>.\<close>

definition dict_get :: "(string \<times> pyval) list \<Rightarrow> string \<Rightarrow> pyval" where
  "dict_get kvs k = (case map_of kvs k of None \<Rightarrow> PNone | Some v \<Rightarrow> v)"

datatype exn =
    ValueError
  | AttributeError
  | KeyError
  | TypeError
  | UnboundLocalError
  | DoesNotExist
  | MultipleObjectsReturned
  | IntegrityError

section \<open>The schema module\<close>

text \<open>
  \<^verbatim>\<open>models.py\<close> is declarative: each class lists its columns. The embedding keeps the
  declarations as data and gives them the meaning the object-relational mapper gives
  them when a row is written. Besides the fourteen models of the module there are the
  three tables of the libraries the views read and write: the accounts of
  \<^verbatim>\<open>django.contrib.auth\<close>, the tokens of \<^verbatim>\<open>rest_framework.authtoken\<close> and the devices
  of \<^verbatim>\<open>push_notifications\<close>.
\<close>

datatype model =
    Level | Student | Teacher | University | School | Degree | Subject | ExtraTitle
  | CourseLabel | SemesterDate | Course | TeachingSubject | Exam | Timetable
  | User | Token | GCMDevice

datatype field_type =
    CharField nat
  | TextField
  | IntegerField
  | PositiveIntegerField
  | BooleanField
  | DateField
  | TimeField
  | ForeignKey model
  | OneToOneField model
  | ManyToManyField model

text \<open>
  The keyword arguments of a field that decide what is written to the database. The
  arguments \<^verbatim>\<open>choices\<close>, \<^verbatim>\<open>related_name\<close> and the verbose name act on forms and on
  the Python side only and are not recorded.
\<close>

datatype field_option = null | blank | unique | default pyval

datatype model_field =
  ModelField (fname: string) (ftype: field_type) (options: "field_option list")

fun fields_of :: "model \<Rightarrow> model_field list" where
  "fields_of Level =
     [ModelField ''year_name'' (CharField 20) []]"
| "fields_of Student =
     [ModelField ''user'' (OneToOneField User) []]"
| "fields_of Teacher =
     [ModelField ''user'' (OneToOneField User) [],
      ModelField ''dept'' (CharField 254) [blank, null],
      ModelField ''description'' TextField [blank, null]]"
| "fields_of University =
     [ModelField ''name'' (CharField 254) [],
      ModelField ''address'' (CharField 254) [blank, null],
      ModelField ''city'' (CharField 254) [blank, null]]"
| "fields_of School =
     [ModelField ''name'' (CharField 254) [],
      ModelField ''address'' (CharField 254) [blank, null],
      ModelField ''university'' (ForeignKey University) []]"
| "fields_of Degree =
     [ModelField ''title'' (CharField 254) [],
      ModelField ''school'' (ForeignKey School) []]"
| "fields_of Subject =
     [ModelField ''code'' IntegerField [blank, null],
      ModelField ''title'' (CharField 254) [],
      ModelField ''description'' TextField [blank, null],
      ModelField ''level'' (OneToOneField Level) [null, blank],
      ModelField ''degree'' (ForeignKey Degree) []]"
| "fields_of ExtraTitle =
     [ModelField ''title'' (CharField 254) [],
      ModelField ''language'' (CharField 5) [default (PStr ''en'')],
      ModelField ''subject'' (ForeignKey Subject) []]"
| "fields_of CourseLabel =
     [ModelField ''name'' (CharField 20) []]"
| "fields_of SemesterDate =
     [ModelField ''date'' DateField []]"
| "fields_of Course =
     [ModelField ''label'' (ForeignKey CourseLabel) [],
      ModelField ''language'' (CharField 5) [default (PStr ''es''), blank, null],
      ModelField ''first_semester_start'' (ForeignKey SemesterDate) [null, blank],
      ModelField ''first_semester_end'' (ForeignKey SemesterDate) [null, blank],
      ModelField ''second_semester_start'' (ForeignKey SemesterDate) [null, blank],
      ModelField ''second_semester_end'' (ForeignKey SemesterDate) [null, blank],
      ModelField ''level'' (ForeignKey Level) [null, blank],
      ModelField ''degree'' (ForeignKey Degree) []]"
| "fields_of TeachingSubject =
     [ModelField ''address'' (CharField 254) [blank, null],
      ModelField ''students'' (ManyToManyField Student) [blank, null],
      ModelField ''teachers'' (ManyToManyField Teacher) [blank, null],
      ModelField ''course'' (ForeignKey Course) [blank, null],
      ModelField ''subject'' (OneToOneField Subject) []]"
| "fields_of Exam =
     [ModelField ''title'' (CharField 254) [blank, null],
      ModelField ''address'' (CharField 254) [blank, null],
      ModelField ''duration'' PositiveIntegerField [default (PInt 30), blank, null],
      ModelField ''date'' DateField [blank, null],
      ModelField ''t_subject'' (ForeignKey TeachingSubject) []]"
| "fields_of Timetable =
     [ModelField ''start_at'' TimeField [],
      ModelField ''week_day'' (CharField 1) [default (PStr ''1'')],
      ModelField ''description'' (CharField 254) [blank, null],
      ModelField ''period'' (CharField 1) [default (PStr ''1'')],
      ModelField ''duration'' PositiveIntegerField [default (PInt 30), blank, null],
      ModelField ''t_subject'' (ForeignKey TeachingSubject) []]"
| "fields_of User =
     [ModelField ''username'' (CharField 30) [unique],
      ModelField ''password'' (CharField 128) [],
      ModelField ''is_active'' BooleanField [default (PBool True)]]"
| "fields_of Token =
     [ModelField ''key'' (CharField 40) [unique],
      ModelField ''user'' (OneToOneField User) []]"
| "fields_of GCMDevice =
     [ModelField ''name'' (CharField 255) [blank, null],
      ModelField ''active'' BooleanField [default (PBool True)],
      ModelField ''user'' (ForeignKey User) [blank, null],
      ModelField ''device_id'' IntegerField [blank, null],
      ModelField ''registration_id'' TextField []]"

subsection \<open>Rows and tables\<close>

record row =
  pk :: int
  cols :: "(string \<times> pyval) list"

type_synonym db = "model \<Rightarrow> row list"

definition empty_db :: db where
  "empty_db = (\<lambda>m. [])"

definition col :: "row \<Rightarrow> string \<Rightarrow> pyval" where
  "col r f = dict_get (cols r) f"

definition pks :: "db \<Rightarrow> model \<Rightarrow> int list" where
  "pks d m = map pk (d m)"

text \<open>The next value of an auto-increment key: one more than the largest in the table.\<close>

definition next_pk :: "row list \<Rightarrow> int" where
  "next_pk rs = fold max (map pk rs) 0 + 1"

subsection \<open>What the database accepts\<close>

text \<open>
  The value written for a field: the one supplied, else the declared \<^verbatim>\<open>default\<close>, else
  the empty string for a text column that is not nullable, else \<^verbatim>\<open>None\<close>.
\<close>

fun declared_default :: "field_option list \<Rightarrow> pyval option" where
  "declared_default [] = None"
| "declared_default (default v # os) = Some v"
| "declared_default (x # os) = declared_default os"

fun get_default :: "model_field \<Rightarrow> pyval" where
  "get_default (ModelField n ty os) =
     (case declared_default os of
        Some v \<Rightarrow> v
      | None \<Rightarrow>
          (case ty of
             CharField k \<Rightarrow> if null \<in> set os then PNone else PStr []
           | TextField \<Rightarrow> if null \<in> set os then PNone else PStr []
           | _ \<Rightarrow> PNone))"

definition value_for :: "(string \<times> pyval) list \<Rightarrow> model_field \<Rightarrow> pyval" where
  "value_for vals f =
     (case map_of vals (fname f) of Some v \<Rightarrow> v | None \<Rightarrow> get_default f)"

text \<open>
  A column without \<^verbatim>\<open>null=True\<close> is \<^verbatim>\<open>NOT NULL\<close>. A many-to-many field is no column
  of its own table (its links live in a join table), an absent value is the empty list.
\<close>

fun not_null_ok :: "model_field \<Rightarrow> pyval \<Rightarrow> bool" where
  "not_null_ok (ModelField n (ManyToManyField t) os) v = True"
| "not_null_ok (ModelField n ty os) v = (v \<noteq> PNone \<or> null \<in> set os)"

text \<open>A reference names a row that exists in the table it points to.\<close>

fun ref_ok :: "db \<Rightarrow> model \<Rightarrow> pyval \<Rightarrow> bool" where
  "ref_ok d t PNone = True"
| "ref_ok d t (PInt i) = (i \<in> set (pks d t))"
| "ref_ok d t v = False"

fun refs_ok :: "db \<Rightarrow> model_field \<Rightarrow> pyval \<Rightarrow> bool" where
  "refs_ok d (ModelField n (ForeignKey t) os) v = ref_ok d t v"
| "refs_ok d (ModelField n (OneToOneField t) os) v = ref_ok d t v"
| "refs_ok d (ModelField n (ManyToManyField t) os) PNone = True"
| "refs_ok d (ModelField n (ManyToManyField t) os) (PList vs) =
     list_all (\<lambda>v. v \<noteq> PNone \<and> ref_ok d t v) vs"
| "refs_ok d (ModelField n (ManyToManyField t) os) v = False"
| "refs_ok d (ModelField n ty os) v = True"

text \<open>
  A \<^verbatim>\<open>OneToOneField\<close> is a foreign key with a \<^verbatim>\<open>UNIQUE\<close> constraint; so is a field
  declared \<^verbatim>\<open>unique=True\<close>. As in SQL, \<^verbatim>\<open>NULL\<close> never collides.
\<close>

fun is_unique :: "model_field \<Rightarrow> bool" where
  "is_unique (ModelField n (OneToOneField t) os) = True"
| "is_unique (ModelField n ty os) = (unique \<in> set os)"

definition unique_ok :: "row list \<Rightarrow> model_field \<Rightarrow> pyval \<Rightarrow> bool" where
  "unique_ok others f v =
     (\<not> is_unique f \<or> v = PNone \<or> list_all (\<lambda>r. col r (fname f) \<noteq> v) others)"

definition field_ok ::
  "db \<Rightarrow> row list \<Rightarrow> (string \<times> pyval) list \<Rightarrow> model_field \<Rightarrow> bool"
where
  "field_ok d others vals f =
     (let v = value_for vals f
      in not_null_ok f v \<and> refs_ok d f v \<and> unique_ok others f v)"

definition accepts :: "db \<Rightarrow> model \<Rightarrow> row list \<Rightarrow> (string \<times> pyval) list \<Rightarrow> bool" where
  "accepts d m others vals = list_all (field_ok d others vals) (fields_of m)"

text \<open>The stored columns of a row: one value for each declared field, in order.\<close>

definition columns :: "model \<Rightarrow> (string \<times> pyval) list \<Rightarrow> (string \<times> pyval) list" where
  "columns m vals = map (\<lambda>f. (fname f, value_for vals f)) (fields_of m)"

subsection \<open>Persistence operations\<close>

text \<open>
  \<^verbatim>\<open>Model.objects.create(**vals)\<close>, or \<^verbatim>\<open>save()\<close> of a new instance: the row is
  inserted under a fresh key, or the database refuses it and nothing changes.
\<close>

definition create :: "model \<Rightarrow> (string \<times> pyval) list \<Rightarrow> db \<Rightarrow> (exn + row) \<times> db" where
  "create m vals d =
     (if accepts d m (d m) vals
      then (let r = \<lparr>pk = next_pk (d m), cols = columns m vals\<rparr>
            in (Inr r, d(m := d m @ [r])))
      else (Inl IntegrityError, d))"

text \<open>\<^verbatim>\<open>save()\<close> of an instance that is already stored: its columns are replaced.\<close>

definition update :: "model \<Rightarrow> int \<Rightarrow> (string \<times> pyval) list \<Rightarrow> db \<Rightarrow> (exn + row) \<times> db" where
  "update m i vals d =
     (if i \<notin> set (pks d m) then (Inl DoesNotExist, d)
      else if accepts d m (filter (\<lambda>r. pk r \<noteq> i) (d m)) vals
      then (let r = \<lparr>pk = i, cols = columns m vals\<rparr>
            in (Inr r, d(m := map (\<lambda>x. if pk x = i then r else x) (d m))))
      else (Inl IntegrityError, d))"

text \<open>
  \<^verbatim>\<open>delete()\<close>: the collector gathers the rows to remove, the row asked for and the
  rows that depend on it. Which rows it gathers is left open here: any set of rows,
  given by the keys marked in each table, may go.
\<close>

definition delete :: "(model \<Rightarrow> int \<Rightarrow> bool) \<Rightarrow> db \<Rightarrow> db" where
  "delete gathered d = (\<lambda>m. filter (\<lambda>r. \<not> gathered m (pk r)) (d m))"

text \<open>The states of the database that the persistence operations lead to.\<close>

inductive reachable :: "db \<Rightarrow> bool" where
  initial: "reachable empty_db"
| created: "reachable d \<Longrightarrow> reachable (snd (create m vals d))"
| updated: "reachable d \<Longrightarrow> reachable (snd (update m i vals d))"
| deleted: "reachable d \<Longrightarrow> reachable (delete gathered d)"

text \<open>
  What the constraints keep true of a database: keys are not repeated within a table, and
  the \<^verbatim>\<open>subject\<close> column of TeachingSubject is never null and never repeated.
\<close>

definition constrained :: "db \<Rightarrow> bool" where
  "constrained d =
     ((\<forall>m. distinct (pks d m))
      \<and> distinct (map (\<lambda>r. col r ''subject'') (d TeachingSubject))
      \<and> PNone \<notin> (\<lambda>r. col r ''subject'') ` set (d TeachingSubject))"

text \<open>Queries: \<^verbatim>\<open>filter(**conds)\<close> and \<^verbatim>\<open>get(**conds)\<close> of a manager.\<close>

definition objects_filter :: "model \<Rightarrow> (string \<times> pyval) list \<Rightarrow> db \<Rightarrow> row list" where
  "objects_filter m conds d =
     filter (\<lambda>r. list_all (\<lambda>(f, v). col r f = v) conds) (d m)"

definition objects_get :: "model \<Rightarrow> (string \<times> pyval) list \<Rightarrow> db \<Rightarrow> exn + row" where
  "objects_get m conds d =
     (case objects_filter m conds d of
        [] \<Rightarrow> Inl DoesNotExist
      | [r] \<Rightarrow> Inr r
      | _ \<Rightarrow> Inl MultipleObjectsReturned)"

text \<open>
  \<^verbatim>\<open>get_or_create(defaults=..., **lookup)\<close>: the row that matches the lookup, or a new
  row made of the lookup and the defaults; the flag tells which.
\<close>

definition get_or_create ::
  "model \<Rightarrow> (string \<times> pyval) list \<Rightarrow> (string \<times> pyval) list \<Rightarrow> db \<Rightarrow> (exn + row \<times> bool) \<times> db"
where
  "get_or_create m lookup defaults d =
     (case objects_filter m lookup d of
        [] \<Rightarrow>
          (case create m (lookup @ defaults) d of
             (Inl e, d') \<Rightarrow> (Inl e, d')
           | (Inr r, d') \<Rightarrow> (Inr (r, True), d'))
      | [r] \<Rightarrow> (Inr (r, False), d)
      | _ \<Rightarrow> (Inl MultipleObjectsReturned, d))"

section \<open>The user API\<close>

subsection \<open>Requests and responses\<close>

text \<open>
  A response is its status code and its body. The bodies of these views are JSON
  documents or nothing at all: \<open>Some v\<close> is the text \<^verbatim>\<open>json.dumps(v)\<close> (or what the
  framework's renderer writes for \<open>v\<close>), \<open>None\<close> is the empty body.
\<close>

record response =
  status :: nat
  content :: "pyval option"

definition HttpResponse :: "pyval option \<Rightarrow> response" where
  "HttpResponse c = \<lparr>status = 200, content = c\<rparr>"

definition HttpResponseBadRequest :: "pyval option \<Rightarrow> response" where
  "HttpResponseBadRequest c = \<lparr>status = 400, content = c\<rparr>"

definition Response :: "pyval \<Rightarrow> nat \<Rightarrow> response" where
  "Response data code = \<lparr>status = code, content = Some data\<rparr>"

definition HTTP_200_OK :: nat where
  "HTTP_200_OK = 200"

definition HTTP_400_BAD_REQUEST :: nat where
  "HTTP_400_BAD_REQUEST = 400"

text \<open>
  The raw body of a request, by what \<^verbatim>\<open>json.loads\<close> makes of it: a value, or
  \<^verbatim>\<open>ValueError\<close> for a text that is no JSON document.
\<close>

datatype body = Unparseable | Parses pyval

fun json_loads :: "body \<Rightarrow> exn + pyval" where
  "json_loads Unparseable = Inl ValueError"
| "json_loads (Parses v) = Inr v"

text \<open>
  The request a plain Django view sees: the form-encoded fields (\<^verbatim>\<open>request.POST\<close>,
  empty for any other content type) and the raw body.
\<close>

record http_request =
  POST :: "(string \<times> string) list"
  body :: body

text \<open>
  The request a REST-framework view sees: the parsed payload (\<^verbatim>\<open>request.DATA\<close>) and
  the authenticated account (\<^verbatim>\<open>request.user\<close>), a row of the accounts table.
\<close>

record api_request =
  DATA :: pyval
  user :: row

text \<open>The field errors of a form or a serializer, and their JSON document.\<close>

type_synonym errors = "(string \<times> string list) list"

definition errors_json :: "errors \<Rightarrow> pyval" where
  "errors_json es = PDict (map (\<lambda>(f, msgs). (f, PList (map PStr msgs))) es)"

text \<open>
  What validation gives: \<^verbatim>\<open>is_valid()\<close> is false and there are errors, or it is true
  and there is the validated object (\<^verbatim>\<open>cleaned_data\<close> of a form, \<^verbatim>\<open>object\<close> of a
  serializer).
\<close>

datatype 'a validation = Errors errors | Valid 'a

subsection \<open>What the views take from elsewhere\<close>

text \<open>
  Modelled from the spec: \<^verbatim>\<open>core.constants\<close> is not among the sources. The role
  field is restricted to the enumerated set {student, teacher}.
\<close>

definition ROLES_student :: pyval where
  "ROLES_student = PStr ''student''"

definition ROLES_teacher :: pyval where
  "ROLES_teacher = PStr ''teacher''"

definition USER_ROLES_keys :: "pyval list" where
  "USER_ROLES_keys = [PStr ''student'', PStr ''teacher'']"

text \<open>
  The forms (\<^verbatim>\<open>.forms\<close>), the device serializer (\<^verbatim>\<open>caluny_api.serializers\<close>) and the
  credential serializer of the framework are not among the sources either; nor are the
  password hasher and the generator of token keys. The views are stated for any of
  them: each form or serializer is a function from the database and the payload to
  its validation, \<open>make_password\<close> is the hash of a raw password, and \<open>generate_key\<close>
  is the key drawn for the token issued during the request.
\<close>

record env =
  StudentForm :: "db \<Rightarrow> pyval \<Rightarrow> (string \<times> pyval) list validation"
  TeacherForm :: "db \<Rightarrow> pyval \<Rightarrow> (string \<times> pyval) list validation"
  AuthTokenSerializer :: "db \<Rightarrow> pyval \<Rightarrow> row validation"
  GCMDeviceSerializer :: "db \<Rightarrow> pyval \<Rightarrow> (string \<times> pyval) list validation"
  make_password :: "pyval \<Rightarrow> string"
  generate_key :: string

text \<open>
  Modelled from the spec: \<^verbatim>\<open>core.models\<close> is not among the sources. An account row
  (Student or Teacher) wraps exactly one underlying user credential record: the row of
  the role's table refers to the row of the accounts table through its \<^verbatim>\<open>user\<close>
  column, as the schema module declares it, and the attributes of the credential record
  are read through that link. \<open>with_username m u\<close> is \<^verbatim>\<open>m.objects.filter(username=u)\<close>.
\<close>

definition with_username :: "model \<Rightarrow> pyval \<Rightarrow> db \<Rightarrow> row list" where
  "with_username m u d =
     filter (\<lambda>r. list_ex (\<lambda>a. PInt (pk a) = col r ''user'' \<and> col a ''username'' = u) (d User))
       (d m)"

text \<open>
  Modelled from the spec: the receiver of the \<^verbatim>\<open>post_save\<close> signal is not among the
  sources. Account creation issues an authentication token: one token row for the
  account that was saved.
\<close>

definition post_save :: "env \<Rightarrow> row \<Rightarrow> db \<Rightarrow> (exn + row) \<times> db" where
  "post_save e account d =
     create Token [(''key'', PStr (generate_key e)), (''user'', PInt (pk account))] d"

text \<open>
  \<^verbatim>\<open>form.instance.save()\<close> for an instance of the role \<open>m\<close> with the attributes
  \<open>attrs\<close>: the credential record and the role's row that wraps it are written in one
  transaction (if the second is refused, the first is rolled back), then the signal is
  sent. The result is the credential record, whose key is \<^verbatim>\<open>form.instance.id\<close>.
\<close>

definition save :: "env \<Rightarrow> model \<Rightarrow> (string \<times> pyval) list \<Rightarrow> db \<Rightarrow> (exn + row) \<times> db" where
  "save e m attrs d =
     (case create User attrs d of
        (Inl x, d1) \<Rightarrow> (Inl x, d)
      | (Inr account, d1) \<Rightarrow>
          (case create m ((''user'', PInt (pk account)) # attrs) d1 of
             (Inl x, d2) \<Rightarrow> (Inl x, d)
           | (Inr r, d2) \<Rightarrow>
               (case post_save e account d2 of
                  (Inl x, d3) \<Rightarrow> (Inl x, d3)
                | (Inr t, d3) \<Rightarrow> (Inr account, d3))))"

subsection \<open>Account creation: \<^verbatim>\<open>create_app_user\<close>\<close>

text \<open>\<^verbatim>\<open>request.POST if request.POST else json.loads(request.body)\<close>\<close>

definition request_data :: "http_request \<Rightarrow> exn + pyval" where
  "request_data request =
     (if POST request \<noteq> [] then Inr (PDict (map (\<lambda>(k, v). (k, PStr v)) (POST request)))
      else json_loads (body request))"

text \<open>\<^verbatim>\<open>data.get(k)\<close>: only a dictionary has the method.\<close>

fun py_get :: "pyval \<Rightarrow> string \<Rightarrow> exn + pyval" where
  "py_get (PDict kvs) k = Inr (dict_get kvs k)"
| "py_get v k = Inl AttributeError"

text \<open>\<^verbatim>\<open>d[k]\<close>\<close>

definition py_item :: "(string \<times> pyval) list \<Rightarrow> string \<Rightarrow> exn + pyval" where
  "py_item kvs k = (case map_of kvs k of None \<Rightarrow> Inl KeyError | Some v \<Rightarrow> Inr v)"

text \<open>The form chosen for a role; with neither branch taken, \<^verbatim>\<open>form\<close> is unbound.\<close>

definition form_for ::
  "env \<Rightarrow> pyval \<Rightarrow> db \<Rightarrow> pyval \<Rightarrow> exn + model \<times> (string \<times> pyval) list validation"
where
  "form_for e role d data =
     (if role = ROLES_student then Inr (Student, StudentForm e d data)
      else if role = ROLES_teacher then Inr (Teacher, TeacherForm e d data)
      else Inl UnboundLocalError)"

definition create_app_user :: "env \<Rightarrow> http_request \<Rightarrow> db \<Rightarrow> (exn + response) \<times> db" where
  "create_app_user e request d =
     (case request_data request of
        Inl x \<Rightarrow>
          (if x = ValueError then (Inr (HttpResponseBadRequest None), d) else (Inl x, d))
      | Inr data \<Rightarrow>
     (case py_get data ''role'' of
        Inl x \<Rightarrow> (Inl x, d)
      | Inr role \<Rightarrow>
     if \<not> truthy role \<or> (truthy role \<and> role \<notin> set USER_ROLES_keys)
     then (Inr (HttpResponseBadRequest (Some (PStr ''Role not supported''))), d)
     else
     (case form_for e role d data of
        Inl x \<Rightarrow> (Inl x, d)
      | Inr (m, Errors es) \<Rightarrow> (Inr (HttpResponseBadRequest (Some (errors_json es))), d)
      | Inr (m, Valid cleaned_data) \<Rightarrow>
     (case py_item cleaned_data ''password'' of
        Inl x \<Rightarrow> (Inl x, d)
      | Inr raw \<Rightarrow>
     (let instance = (''is_active'', PBool True)
                   # (''password'', PStr (make_password e raw)) # cleaned_data
      in case save e m instance d of
           (Inl x, d') \<Rightarrow> (Inl x, d')
         | (Inr account, d') \<Rightarrow>
             (case objects_get Token [(''user'', PInt (pk account))] d' of
                Inl x \<Rightarrow> (Inl x, d')
              | Inr token \<Rightarrow>
                  (Inr (HttpResponse (Some (PDict [(''token'', col token ''key'')]))), d')))))))"

subsection \<open>Token issuance: \<^verbatim>\<open>ObtainUserAuthToken.post\<close>\<close>

definition ObtainUserAuthToken_post :: "env \<Rightarrow> api_request \<Rightarrow> db \<Rightarrow> (exn + response) \<times> db" where
  "ObtainUserAuthToken_post e request d =
     (case AuthTokenSerializer e d (DATA request) of
        Valid usr \<Rightarrow>
          (let role = PStr [];
               role = (if with_username Teacher (col usr ''username'') d \<noteq> [] then ROLES_teacher
                       else if with_username Student (col usr ''username'') d \<noteq> [] then ROLES_student
                       else role)
           in case objects_get Token [(''user'', PInt (pk usr))] d of
                Inl x \<Rightarrow> (Inl x, d)
              | Inr token \<Rightarrow>
                  (Inr (Response (PDict [(''token'', col token ''key''), (''role'', role)])
                          HTTP_200_OK), d))
      | Errors es \<Rightarrow> (Inr (Response (errors_json es) HTTP_400_BAD_REQUEST), d))"

subsection \<open>Device registration: \<^verbatim>\<open>UserGCMRegistration.post\<close>\<close>

text \<open>\<^verbatim>\<open>s + t\<close> for a string \<open>t\<close>\<close>

fun py_add_str :: "pyval \<Rightarrow> string \<Rightarrow> exn + pyval" where
  "py_add_str (PStr s) t = Inr (PStr (s @ t))"
| "py_add_str v t = Inl TypeError"

definition UserGCMRegistration_post :: "env \<Rightarrow> api_request \<Rightarrow> db \<Rightarrow> (exn + response) \<times> db" where
  "UserGCMRegistration_post e request d =
     (case GCMDeviceSerializer e d (DATA request) of
        Valid object \<Rightarrow>
          (case py_add_str (col (user request) ''username'') '' device'' of
             Inl x \<Rightarrow> (Inl x, d)
           | Inr device_name \<Rightarrow>
               (case get_or_create GCMDevice
                       [(''user'', PInt (pk (user request))),
                        (''registration_id'', dict_get object ''registration_id'')]
                       [(''name'', device_name),
                        (''device_id'', or_None (dict_get object ''device_id''))] d of
                  (Inl x, d') \<Rightarrow> (Inl x, d')
                | (Inr (gcm_device, created), d') \<Rightarrow>
                    (Inr (Response (PDict [(''active'', col gcm_device ''active''),
                                           (''created'', PBool created)]) HTTP_200_OK), d')))
      | Errors es \<Rightarrow> (Inr (Response (errors_json es) HTTP_400_BAD_REQUEST), d))"

subsection \<open>A sample configuration\<close>

text \<open>
  Forms and serializers of the simplest kind, to run the views on concrete requests: the
  forms ask for a user name and a password, the credential serializer looks the account
  up by user name and hashed password, the device serializer asks for a registration id.
\<close>

definition sample_hash :: "pyval \<Rightarrow> string" where
  "sample_hash v = (case v of PStr s \<Rightarrow> ''sha1$'' @ s | _ \<Rightarrow> ''!'')"

definition sample_form :: "db \<Rightarrow> pyval \<Rightarrow> (string \<times> pyval) list validation" where
  "sample_form d data =
     (case data of
        PDict kvs \<Rightarrow>
          (if dict_get kvs ''username'' = PNone
           then Errors [(''username'', [''This field is required.''])]
           else if dict_get kvs ''password'' = PNone
           then Errors [(''password'', [''This field is required.''])]
           else Valid [(''username'', dict_get kvs ''username''),
                       (''password'', dict_get kvs ''password'')])
      | _ \<Rightarrow> Errors [(''__all__'', [''Invalid data.''])])"

definition sample_credentials :: "db \<Rightarrow> pyval \<Rightarrow> row validation" where
  "sample_credentials d data =
     (case data of
        PDict kvs \<Rightarrow>
          (case filter (\<lambda>a. col a ''username'' = dict_get kvs ''username''
                           \<and> col a ''password'' = PStr (sample_hash (dict_get kvs ''password'')))
                  (d User) of
             [] \<Rightarrow> Errors [(''non_field_errors'', [''Unable to login with provided credentials.''])]
           | a # _ \<Rightarrow> Valid a)
      | _ \<Rightarrow> Errors [(''non_field_errors'', [''Invalid data.''])])"

definition sample_device :: "db \<Rightarrow> pyval \<Rightarrow> (string \<times> pyval) list validation" where
  "sample_device d data =
     (case data of
        PDict kvs \<Rightarrow>
          (if dict_get kvs ''registration_id'' = PNone
           then Errors [(''registration_id'', [''This field is required.''])]
           else Valid kvs)
      | _ \<Rightarrow> Errors [(''non_field_errors'', [''Invalid data.''])])"

definition sample_env :: env where
  "sample_env =
     \<lparr>StudentForm = sample_form, TeacherForm = sample_form,
      AuthTokenSerializer = sample_credentials, GCMDeviceSerializer = sample_device,
      make_password = sample_hash, generate_key = ''9944b09199c6''\<rparr>"

text \<open>
  A small database: the account bob, who has a Teacher row and a Student row as well,
  the account carol, who has neither, and a token for each.
\<close>

definition sample_db :: db where
  "sample_db = empty_db
     (User :=
        [\<lparr>pk = 1, cols = [(''username'', PStr ''bob''), (''password'', PStr ''sha1$pw1''),
                          (''is_active'', PBool True)]\<rparr>,
         \<lparr>pk = 2, cols = [(''username'', PStr ''carol''), (''password'', PStr ''sha1$pw2''),
                          (''is_active'', PBool True)]\<rparr>],
      Teacher :=
        [\<lparr>pk = 1, cols = [(''user'', PInt 1), (''dept'', PStr ''Maths''),
                          (''description'', PNone)]\<rparr>],
      Student :=
        [\<lparr>pk = 1, cols = [(''user'', PInt 1)]\<rparr>],
      Token :=
        [\<lparr>pk = 1, cols = [(''key'', PStr ''1f0c5a''), (''user'', PInt 1)]\<rparr>,
         \<lparr>pk = 2, cols = [(''key'', PStr ''7b3e2d''), (''user'', PInt 2)]\<rparr>])"

text \<open>
  A small school, written through the persistence operations: a university, a school, a
  degree, one subject, a course label, a semester date, and the teaching of the subject.
\<close>

definition sample_school :: db where
  "sample_school =
     fold (\<lambda>(m, vals) d. snd (create m vals d))
       [(University, [(''name'', PStr ''Universidad de Malaga''), (''city'', PStr ''Malaga'')]),
        (School, [(''name'', PStr ''ETSI Informatica''), (''university'', PInt 1)]),
        (Degree, [(''title'', PStr ''Computer Science''), (''school'', PInt 1)]),
        (Subject, [(''code'', PInt 101), (''title'', PStr ''Calculus''), (''degree'', PInt 1)]),
        (CourseLabel, [(''name'', PStr ''A'')]),
        (SemesterDate, [(''date'', PStr ''2014-09-22'')]),
        (TeachingSubject, [(''subject'', PInt 1)])]
       empty_db"

section \<open>Properties\<close>

subsection \<open>Fresh keys\<close>

lemma fold_max_ge: "(a::int) \<le> fold max xs a"
  by (induction xs arbitrary: a) (auto intro: order_trans [OF max.cobounded2])

lemma fold_max_mem: "(x::int) \<in> set xs \<Longrightarrow> x \<le> fold max xs a"
proof (induction xs arbitrary: a)
  case Nil
  then show ?case by simp
next
  case (Cons y ys)
  show ?case
  proof (cases "x = y")
    case True
    have "max y a \<le> fold max ys (max y a)" by (rule fold_max_ge)
    then show ?thesis using True by simp
  next
    case False
    with Cons show ?thesis by simp
  qed
qed

lemma pk_less_next_pk: "r \<in> set rs \<Longrightarrow> pk r < next_pk rs"
  using fold_max_mem [of "pk r" "map pk rs" 0] by (simp add: next_pk_def)

lemma next_pk_fresh: "next_pk (d m) \<notin> set (pks d m)"
proof
  assume "next_pk (d m) \<in> set (pks d m)"
  then obtain r where "r \<in> set (d m)" "pk r = next_pk (d m)" by (auto simp: pks_def)
  then show False using pk_less_next_pk [of r "d m"] by simp
qed

lemma ref_ok_not_next:
  assumes "ref_ok d t v"
  shows "v \<noteq> PInt (next_pk (d t))"
  using assms next_pk_fresh [of d t] by (cases v) auto

lemma refs_fresh:
  assumes "list_all (\<lambda>r. ref_ok d t (col r f)) rs"
  shows "list_all (\<lambda>r. col r f \<noteq> PInt (next_pk (d t))) rs"
  using assms by (auto simp: list_all_iff dest: ref_ok_not_next)

subsection \<open>The sample database, table by table\<close>

lemma sample_db_tables:
  "sample_db User =
        [\<lparr>pk = 1, cols = [(''username'', PStr ''bob''), (''password'', PStr ''sha1$pw1''),
                          (''is_active'', PBool True)]\<rparr>,
         \<lparr>pk = 2, cols = [(''username'', PStr ''carol''), (''password'', PStr ''sha1$pw2''),
                          (''is_active'', PBool True)]\<rparr>]"
  "sample_db Teacher =
        [\<lparr>pk = 1, cols = [(''user'', PInt 1), (''dept'', PStr ''Maths''),
                          (''description'', PNone)]\<rparr>]"
  "sample_db Student = [\<lparr>pk = 1, cols = [(''user'', PInt 1)]\<rparr>]"
  "sample_db Token =
        [\<lparr>pk = 1, cols = [(''key'', PStr ''1f0c5a''), (''user'', PInt 1)]\<rparr>,
         \<lparr>pk = 2, cols = [(''key'', PStr ''7b3e2d''), (''user'', PInt 2)]\<rparr>]"
  "sample_db GCMDevice = []"
  by (simp_all add: sample_db_def empty_db_def)


subsection \<open>Account creation\<close>

text \<open>
  C1, as the view has it. A payload that reaches the role check as a dictionary (form
  fields, or a JSON object) and has no \<^verbatim>\<open>role\<close>, or a role other than student and
  teacher, is answered by a 400 response that carries the message of the unsupported
  role. A request with no form fields whose body is not JSON never reaches the role
  check: it is answered by \<^verbatim>\<open>HttpResponseBadRequest()\<close>, a 400 response without a
  message. In both cases the database is left as it was: no account is created.
\<close>

theorem create_app_user_unsupported_role:
  "(request_data request = Inr (PDict kvs)
      \<and> dict_get kvs ''role'' \<notin> {PStr ''student'', PStr ''teacher''} \<longrightarrow>
    create_app_user e request d =
      (Inr \<lparr>status = 400, content = Some (PStr ''Role not supported'')\<rparr>, d))
   \<and> (POST request = [] \<and> body request = Unparseable \<longrightarrow>
    create_app_user e request d = (Inr \<lparr>status = 400, content = None\<rparr>, d))"
  by (simp add: create_app_user_def request_data_def USER_ROLES_keys_def
        HttpResponseBadRequest_def)

theorem create_app_user_unsupported_role_witness:
  "request_data \<lparr>POST = [(''username'', ''ann'')], body = Unparseable\<rparr>
     = Inr (PDict [(''username'', PStr ''ann'')])
   \<and> dict_get [(''username'', PStr ''ann'')] ''role'' \<notin> {PStr ''student'', PStr ''teacher''}
   \<and> create_app_user sample_env \<lparr>POST = [(''username'', ''ann'')], body = Unparseable\<rparr> sample_db
     = (Inr \<lparr>status = 400, content = Some (PStr ''Role not supported'')\<rparr>, sample_db)
   \<and> request_data \<lparr>POST = [], body = Parses (PDict [(''role'', PStr ''admin'')])\<rparr>
     = Inr (PDict [(''role'', PStr ''admin'')])
   \<and> dict_get [(''role'', PStr ''admin'')] ''role'' \<notin> {PStr ''student'', PStr ''teacher''}
   \<and> create_app_user sample_env
        \<lparr>POST = [], body = Parses (PDict [(''role'', PStr ''admin'')])\<rparr> sample_db
     = (Inr \<lparr>status = 400, content = Some (PStr ''Role not supported'')\<rparr>, sample_db)
   \<and> request_data \<lparr>POST = [], body = Parses (PDict [])\<rparr> = Inr (PDict [])
   \<and> dict_get [] ''role'' \<notin> {PStr ''student'', PStr ''teacher''}
   \<and> create_app_user sample_env \<lparr>POST = [], body = Parses (PDict [])\<rparr> sample_db
     = (Inr \<lparr>status = 400, content = Some (PStr ''Role not supported'')\<rparr>, sample_db)
   \<and> POST \<lparr>POST = [], body = Unparseable\<rparr> = []
   \<and> body \<lparr>POST = [], body = Unparseable\<rparr> = Unparseable
   \<and> create_app_user sample_env \<lparr>POST = [], body = Unparseable\<rparr> sample_db
     = (Inr \<lparr>status = 400, content = None\<rparr>, sample_db)"
proof -
  let ?q1 = "\<lparr>POST = [(''username'', ''ann'')], body = Unparseable\<rparr>"
  let ?q2 = "\<lparr>POST = [], body = Parses (PDict [(''role'', PStr ''admin'')])\<rparr>"
  let ?q3 = "\<lparr>POST = [], body = Parses (PDict [])\<rparr>"
  let ?q4 = "\<lparr>POST = [], body = Unparseable\<rparr>"
  have a: "request_data ?q1 = Inr (PDict [(''username'', PStr ''ann'')])
           \<and> dict_get [(''username'', PStr ''ann'')] ''role''
                 \<notin> {PStr ''student'', PStr ''teacher''}"
    by (simp add: request_data_def dict_get_def)
  have b: "request_data ?q2 = Inr (PDict [(''role'', PStr ''admin'')])
           \<and> dict_get [(''role'', PStr ''admin'')] ''role''
                 \<notin> {PStr ''student'', PStr ''teacher''}"
    by (simp add: request_data_def dict_get_def)
  have c: "request_data ?q3 = Inr (PDict [])
           \<and> dict_get [] ''role'' \<notin> {PStr ''student'', PStr ''teacher''}"
    by (simp add: request_data_def dict_get_def)
  have f: "POST ?q4 = [] \<and> body ?q4 = Unparseable"
    by simp
  show ?thesis
    using a b c f
      create_app_user_unsupported_role
        [where request = ?q1 and kvs = "[(''username'', PStr ''ann'')]"
           and e = sample_env and d = sample_db]
      create_app_user_unsupported_role
        [where request = ?q2 and kvs = "[(''role'', PStr ''admin'')]"
           and e = sample_env and d = sample_db]
      create_app_user_unsupported_role
        [where request = ?q3 and kvs = "[]" and e = sample_env and d = sample_db]
      create_app_user_unsupported_role
        [where request = ?q4 and e = sample_env and d = sample_db]
    by simp
qed

text \<open>
  A payload without a role that is answered without the message: a form without any
  field. \<^verbatim>\<open>request.POST\<close> is empty, so the view turns to the
  body; the body of such a request is empty too, \<^verbatim>\<open>json.loads\<close> raises
  \<^verbatim>\<open>ValueError\<close>, and the answer is a 400 response that does not carry the message.
\<close>

theorem empty_form_no_role_message:
  "map_of (POST \<lparr>POST = [], body = Unparseable\<rparr>) ''role'' = None
   \<and> create_app_user sample_env \<lparr>POST = [], body = Unparseable\<rparr> empty_db
       = (Inr \<lparr>status = 400, content = None\<rparr>, empty_db)
   \<and> create_app_user sample_env \<lparr>POST = [], body = Unparseable\<rparr> empty_db
       \<noteq> (Inr \<lparr>status = 400, content = Some (PStr ''Role not supported'')\<rparr>, empty_db)"
  by (simp add: create_app_user_def request_data_def HttpResponseBadRequest_def)

text \<open>
  Two remarks on the paths around the role check. A role that passes the check is one of
  the two roles that have a form, so \<^verbatim>\<open>form\<close> is always bound when it is used. A JSON
  body that is not an object (a list, a string, a number, \<^verbatim>\<open>null\<close>) has no
  \<^verbatim>\<open>get\<close>: the view raises before it looks at the role, and nothing is written.
\<close>

lemma form_always_bound:
  assumes "\<not> (\<not> truthy role \<or> (truthy role \<and> role \<notin> set USER_ROLES_keys))"
  shows "form_for e role d data \<noteq> Inl UnboundLocalError"
  using assms
  by (auto simp: form_for_def USER_ROLES_keys_def ROLES_student_def ROLES_teacher_def)

lemma create_app_user_not_an_object:
  assumes "request_data request = Inr v" and "\<forall>kvs. v \<noteq> PDict kvs"
  shows "create_app_user e request d = (Inl AttributeError, d)"
  using assms by (cases v) (simp_all add: create_app_user_def)

subsection \<open>What a successful save writes\<close>

lemma create_User_accepted:
  assumes "map_of attrs ''username'' = Some name" "name \<noteq> PNone"
      and "list_all (\<lambda>a. col a ''username'' \<noteq> name) (d User)"
      and "map_of attrs ''password'' = Some (PStr h)"
      and "map_of attrs ''is_active'' = Some (PBool b)"
  shows "create User attrs d =
     (Inr \<lparr>pk = next_pk (d User),
            cols = [(''username'', name), (''password'', PStr h), (''is_active'', PBool b)]\<rparr>,
      d(User := d User @
         [\<lparr>pk = next_pk (d User),
           cols = [(''username'', name), (''password'', PStr h), (''is_active'', PBool b)]\<rparr>]))"
  using assms
  by (simp add: create_def accepts_def field_ok_def value_for_def unique_ok_def columns_def Let_def)

lemma create_Student_accepted:
  assumes "i \<in> set (pks d User)"
      and "list_all (\<lambda>r. col r ''user'' \<noteq> PInt i) (d Student)"
  shows "create Student ((''user'', PInt i) # attrs) d =
     (Inr \<lparr>pk = next_pk (d Student), cols = [(''user'', PInt i)]\<rparr>,
      d(Student := d Student @ [\<lparr>pk = next_pk (d Student), cols = [(''user'', PInt i)]\<rparr>]))"
  using assms
  by (simp add: create_def accepts_def field_ok_def value_for_def unique_ok_def columns_def Let_def)

lemma create_Token_accepted:
  assumes "i \<in> set (pks d User)"
      and "list_all (\<lambda>r. col r ''user'' \<noteq> PInt i) (d Token)"
      and "list_all (\<lambda>r. col r ''key'' \<noteq> PStr k) (d Token)"
  shows "create Token [(''key'', PStr k), (''user'', PInt i)] d =
     (Inr \<lparr>pk = next_pk (d Token), cols = [(''key'', PStr k), (''user'', PInt i)]\<rparr>,
      d(Token := d Token @
         [\<lparr>pk = next_pk (d Token), cols = [(''key'', PStr k), (''user'', PInt i)]\<rparr>]))"
  using assms
  by (simp add: create_def accepts_def field_ok_def value_for_def unique_ok_def columns_def Let_def)

lemma objects_get_appended:
  assumes "list_all (\<lambda>r. col r f \<noteq> v) rs" "col t f = v"
  shows "objects_get m [(f, v)] (d(m := rs @ [t])) = Inr t"
proof -
  have "filter (\<lambda>r. col r f = v) rs = []"
    using assms(1) by (auto simp: list_all_iff filter_empty_conv)
  then show ?thesis using assms(2) by (simp add: objects_get_def objects_filter_def)
qed

lemma save_Student_accepted:
  assumes name: "map_of attrs ''username'' = Some name" "name \<noteq> PNone"
      and free: "list_all (\<lambda>a. col a ''username'' \<noteq> name) (d User)"
      and pw: "map_of attrs ''password'' = Some (PStr h)"
      and act: "map_of attrs ''is_active'' = Some (PBool b)"
      and students: "list_all (\<lambda>r. ref_ok d User (col r ''user'')) (d Student)"
      and tokens: "list_all (\<lambda>r. ref_ok d User (col r ''user'')) (d Token)"
      and key: "list_all (\<lambda>r. col r ''key'' \<noteq> PStr (generate_key e)) (d Token)"
  shows "save e Student attrs d =
     (Inr \<lparr>pk = next_pk (d User),
            cols = [(''username'', name), (''password'', PStr h), (''is_active'', PBool b)]\<rparr>,
      d(User := d User @
          [\<lparr>pk = next_pk (d User),
            cols = [(''username'', name), (''password'', PStr h), (''is_active'', PBool b)]\<rparr>],
        Student := d Student @
          [\<lparr>pk = next_pk (d Student), cols = [(''user'', PInt (next_pk (d User)))]\<rparr>],
        Token := d Token @
          [\<lparr>pk = next_pk (d Token),
            cols = [(''key'', PStr (generate_key e)), (''user'', PInt (next_pk (d User)))]\<rparr>]))"
proof -
  let ?i = "next_pk (d User)"
  let ?a = "\<lparr>pk = ?i, cols = [(''username'', name), (''password'', PStr h), (''is_active'', PBool b)]\<rparr>"
  let ?d1 = "d(User := d User @ [?a])"
  let ?s = "\<lparr>pk = next_pk (d Student), cols = [(''user'', PInt ?i)]\<rparr>"
  let ?d2 = "?d1(Student := d Student @ [?s])"
  have 1: "create User attrs d = (Inr ?a, ?d1)"
    by (rule create_User_accepted [where d = d, OF name free pw act])
  have in1: "?i \<in> set (pks ?d1 User)" by (simp add: pks_def)
  have "list_all (\<lambda>r. col r ''user'' \<noteq> PInt ?i) (?d1 Student)"
    using refs_fresh [where d = d and t = User, OF students] by simp
  from create_Student_accepted [where d = "?d1", OF in1 this, of attrs]
  have 2: "create Student ((''user'', PInt ?i) # attrs) ?d1 = (Inr ?s, ?d2)" by simp
  have in2: "?i \<in> set (pks ?d2 User)" by (simp add: pks_def)
  have u: "list_all (\<lambda>r. col r ''user'' \<noteq> PInt ?i) (?d2 Token)"
    using refs_fresh [where d = d and t = User, OF tokens] by simp
  have k: "list_all (\<lambda>r. col r ''key'' \<noteq> PStr (generate_key e)) (?d2 Token)"
    using key by simp
  from create_Token_accepted [where d = "?d2", OF in2 u k]
  have 3: "post_save e ?a ?d2 =
     (Inr \<lparr>pk = next_pk (d Token), cols = [(''key'', PStr (generate_key e)), (''user'', PInt ?i)]\<rparr>,
      ?d2(Token := d Token @
         [\<lparr>pk = next_pk (d Token), cols = [(''key'', PStr (generate_key e)), (''user'', PInt ?i)]\<rparr>]))"
    by (simp add: post_save_def)
  show ?thesis
    unfolding save_def by (simp add: 1 2 3)
qed


lemma create_Inr:
  assumes "create m vals d = (Inr r, d')"
  shows "d' = d(m := d m @ [r]) \<and> r = \<lparr>pk = next_pk (d m), cols = columns m vals\<rparr>"
  using assms by (auto simp: create_def Let_def split: if_splits)

lemma col_columns_user:
  "m = Student \<or> m = Teacher \<or> m = Token \<Longrightarrow> map_of vals ''user'' = Some v \<Longrightarrow>
     col \<lparr>pk = i, cols = columns m vals\<rparr> ''user'' = v"
  by (auto simp: col_def dict_get_def columns_def value_for_def)

lemma save_Inr:
  assumes "save e m attrs d = (Inr account, d')" and "m = Student \<or> m = Teacher"
  shows "\<exists>role_row token.
           d' = d(User := d User @ [account], m := d m @ [role_row], Token := d Token @ [token])
         \<and> pk account = next_pk (d User)
         \<and> col role_row ''user'' = PInt (pk account)
         \<and> col token ''user'' = PInt (pk account)"
proof -
  from assms(1) obtain d1 where 1: "create User attrs d = (Inr account, d1)"
    by (auto simp: save_def split: prod.splits sum.splits)
  with assms(1) obtain r d2 where
    2: "create m ((''user'', PInt (pk account)) # attrs) d1 = (Inr r, d2)"
    by (auto simp: save_def split: prod.splits sum.splits)
  with 1 assms(1) obtain t where
    3: "create Token [(''key'', PStr (generate_key e)), (''user'', PInt (pk account))] d2 = (Inr t, d')"
    by (auto simp: save_def post_save_def split: prod.splits sum.splits)
  note a = create_Inr [OF 1] and b = create_Inr [OF 2] and c = create_Inr [OF 3]
  have d1: "d1 = d(User := d User @ [account])" using a by simp
  have d2: "d2 = d1(m := d m @ [r])" using b d1 assms(2) by auto
  have d3: "d' = d2(Token := d Token @ [t])" using c d2 d1 assms(2) by auto
  have pk: "pk account = next_pk (d User)" using a by (cases account) simp
  have r: "col r ''user'' = PInt (pk account)"
    using b assms(2) col_columns_user [of m "(''user'', PInt (pk account)) # attrs"] by auto
  have t: "col t ''user'' = PInt (pk account)"
    using c col_columns_user [of Token "[(''key'', PStr (generate_key e)), (''user'', PInt (pk account))]"]
    by auto
  show ?thesis using d1 d2 d3 pk r t by blast
qed


text \<open>
  C2. A valid student payload: the form accepts it, its user name is not taken, and the
  key drawn for the token is not in use; the Student and Token rows of the database refer
  to accounts that exist. Then exactly one account is written, active and with the hashed
  password, exactly one Student row linked to it, and the token returned is the one issued
  for that account.
\<close>

theorem create_app_user_student:
  assumes "request_data request = Inr (PDict kvs)"
      and "dict_get kvs ''role'' = PStr ''student''"
      and "StudentForm e d (PDict kvs) = Valid cleaned_data"
      and "map_of cleaned_data ''password'' = Some raw"
      and "map_of cleaned_data ''username'' = Some name" and "name \<noteq> PNone"
      and "list_all (\<lambda>a. col a ''username'' \<noteq> name) (d User)"
      and "list_all (\<lambda>r. ref_ok d User (col r ''user'')) (d Student)"
      and "list_all (\<lambda>r. ref_ok d User (col r ''user'')) (d Token)"
      and "list_all (\<lambda>r. col r ''key'' \<noteq> PStr (generate_key e)) (d Token)"
  shows "create_app_user e request d =
     (Inr \<lparr>status = 200, content = Some (PDict [(''token'', PStr (generate_key e))])\<rparr>,
      d(User := d User @
          [\<lparr>pk = next_pk (d User),
            cols = [(''username'', name), (''password'', PStr (make_password e raw)),
                    (''is_active'', PBool True)]\<rparr>],
        Student := d Student @
          [\<lparr>pk = next_pk (d Student), cols = [(''user'', PInt (next_pk (d User)))]\<rparr>],
        Token := d Token @
          [\<lparr>pk = next_pk (d Token),
            cols = [(''key'', PStr (generate_key e)), (''user'', PInt (next_pk (d User)))]\<rparr>]))"
proof -
  let ?inst = "(''is_active'', PBool True) # (''password'', PStr (make_password e raw)) # cleaned_data"
  have n: "map_of ?inst ''username'' = Some name" using assms(5) by simp
  have p: "map_of ?inst ''password'' = Some (PStr (make_password e raw))" by simp
  have a: "map_of ?inst ''is_active'' = Some (PBool True)" by simp
  note sv = save_Student_accepted [where d = d, OF n assms(6) assms(7) p a assms(8) assms(9) assms(10)]
  have old: "list_all (\<lambda>r. col r ''user'' \<noteq> PInt (next_pk (d User))) (d Token)"
    using refs_fresh [where d = d and t = User, OF assms(9)] .
  note g = objects_get_appended [OF old, of "\<lparr>pk = next_pk (d Token),
            cols = [(''key'', PStr (generate_key e)), (''user'', PInt (next_pk (d User)))]\<rparr>" Token]
  show ?thesis
    unfolding create_app_user_def
    using assms(1-4) 
    by (simp add: USER_ROLES_keys_def form_for_def ROLES_student_def py_item_def sv g
        col_def dict_get_def  HttpResponse_def)
qed

theorem create_app_user_student_witness:
  "request_data
     \<lparr>POST = [(''role'', ''student''), (''username'', ''ann''), (''password'', ''s3cret'')],
      body = Unparseable\<rparr> =
     Inr (PDict [(''role'', PStr ''student''), (''username'', PStr ''ann''),
                 (''password'', PStr ''s3cret'')])
   \<and> StudentForm sample_env sample_db
       (PDict [(''role'', PStr ''student''), (''username'', PStr ''ann''),
               (''password'', PStr ''s3cret'')]) =
     Valid [(''username'', PStr ''ann''), (''password'', PStr ''s3cret'')]
   \<and> list_all (\<lambda>a. col a ''username'' \<noteq> PStr ''ann'') (sample_db User)
   \<and> list_all (\<lambda>r. ref_ok sample_db User (col r ''user'')) (sample_db Student)
   \<and> list_all (\<lambda>r. ref_ok sample_db User (col r ''user'')) (sample_db Token)
   \<and> list_all (\<lambda>r. col r ''key'' \<noteq> PStr (generate_key sample_env)) (sample_db Token)
   \<and> create_app_user sample_env
     \<lparr>POST = [(''role'', ''student''), (''username'', ''ann''), (''password'', ''s3cret'')],
      body = Unparseable\<rparr> sample_db =
     (Inr \<lparr>status = 200, content = Some (PDict [(''token'', PStr ''9944b09199c6'')])\<rparr>,
      sample_db
       (User := sample_db User @
          [\<lparr>pk = 3, cols = [(''username'', PStr ''ann''), (''password'', PStr ''sha1$s3cret''),
                            (''is_active'', PBool True)]\<rparr>],
        Student := sample_db Student @ [\<lparr>pk = 2, cols = [(''user'', PInt 3)]\<rparr>],
        Token := sample_db Token @
          [\<lparr>pk = 3, cols = [(''key'', PStr ''9944b09199c6''), (''user'', PInt 3)]\<rparr>]))"
proof -
  let ?kvs = "[(''role'', PStr ''student''), (''username'', PStr ''ann''),
               (''password'', PStr ''s3cret'')]"
  let ?cd = "[(''username'', PStr ''ann''), (''password'', PStr ''s3cret'')]"
  have 1: "request_data
     \<lparr>POST = [(''role'', ''student''), (''username'', ''ann''), (''password'', ''s3cret'')],
      body = Unparseable\<rparr> = Inr (PDict ?kvs)"
    by (simp add: request_data_def)
  have 2: "dict_get ?kvs ''role'' = PStr ''student''" by (simp add: dict_get_def)
  have 3: "StudentForm sample_env sample_db (PDict ?kvs) = Valid ?cd"
    by (simp add: sample_env_def sample_form_def dict_get_def)
  have 4: "map_of ?cd ''password'' = Some (PStr ''s3cret'')" by simp
  have 5: "map_of ?cd ''username'' = Some (PStr ''ann'')" by simp
  have 6: "PStr ''ann'' \<noteq> PNone" by simp
  have 7: "list_all (\<lambda>a. col a ''username'' \<noteq> PStr ''ann'') (sample_db User)"
    by (simp add: sample_db_tables col_def dict_get_def)
  have 8: "list_all (\<lambda>r. ref_ok sample_db User (col r ''user'')) (sample_db Student)"
    by (simp add: sample_db_tables col_def dict_get_def pks_def)
  have 9: "list_all (\<lambda>r. ref_ok sample_db User (col r ''user'')) (sample_db Token)"
    by (simp add: sample_db_tables col_def dict_get_def pks_def)
  have 10: "list_all (\<lambda>r. col r ''key'' \<noteq> PStr (generate_key sample_env)) (sample_db Token)"
    by (simp add: sample_db_tables col_def dict_get_def sample_env_def)
  have n: "next_pk (sample_db User) = 3" "next_pk (sample_db Student) = 2"
    "next_pk (sample_db Token) = 3"
    by (simp_all add: sample_db_tables next_pk_def)
  have h: "make_password sample_env (PStr ''s3cret'') = ''sha1$s3cret''"
    "generate_key sample_env = ''9944b09199c6''"
    by (simp_all add: sample_env_def sample_hash_def)
  show ?thesis
    using 1 3 7 8 9 10 create_app_user_student [where d = sample_db, OF 1 2 3 4 5 6 7 8 9 10]
    by (simp add: n h)
qed


text \<open>
  C7. A successful call changes the database by one account (the credential record and
  the one role row that wraps it) and one token for that account, all three appended to
  their tables; every other table, and every row that was there, stays as it was.
\<close>

theorem create_app_user_frame:
  assumes "create_app_user e request d = (Inr resp, d')" and "status resp = 200"
  shows "\<exists>m account role_row token.
           (m = Student \<or> m = Teacher)
         \<and> d' = d(User := d User @ [account], m := d m @ [role_row], Token := d Token @ [token])
         \<and> pk account \<notin> set (pks d User)
         \<and> col role_row ''user'' = PInt (pk account)
         \<and> col token ''user'' = PInt (pk account)
         \<and> (\<forall>m'. m' \<noteq> User \<and> m' \<noteq> m \<and> m' \<noteq> Token \<longrightarrow> d' m' = d m')"
proof -
  from assms obtain m attrs account where
    sv: "save e m attrs d = (Inr account, d')" and m: "m = Student \<or> m = Teacher"
    by (auto simp: create_app_user_def HttpResponseBadRequest_def form_for_def Let_def
             split: sum.splits if_splits prod.splits validation.splits)
  from save_Inr [OF sv m] obtain role_row token where
    *: "d' = d(User := d User @ [account], m := d m @ [role_row], Token := d Token @ [token])"
       "pk account = next_pk (d User)"
       "col role_row ''user'' = PInt (pk account)" "col token ''user'' = PInt (pk account)"
    by blast
  have "pk account \<notin> set (pks d User)" using *(2) next_pk_fresh [of d User] by simp
  moreover have "\<forall>m'. m' \<noteq> User \<and> m' \<noteq> m \<and> m' \<noteq> Token \<longrightarrow> d' m' = d m'"
    using *(1) by simp
  ultimately show ?thesis using m * by blast
qed

theorem create_app_user_frame_witness:
  "\<exists>resp d'. create_app_user sample_env
     \<lparr>POST = [], body = Parses (PDict [(''role'', PStr ''teacher''), (''username'', PStr ''dan''),
                                        (''password'', PStr ''pw4'')])\<rparr> sample_db = (Inr resp, d')
   \<and> status resp = 200
   \<and> (\<exists>m account role_row token.
           (m = Student \<or> m = Teacher)
         \<and> d' = sample_db(User := sample_db User @ [account], m := sample_db m @ [role_row],
                           Token := sample_db Token @ [token])
         \<and> pk account \<notin> set (pks sample_db User)
         \<and> col role_row ''user'' = PInt (pk account)
         \<and> col token ''user'' = PInt (pk account)
         \<and> (\<forall>m'. m' \<noteq> User \<and> m' \<noteq> m \<and> m' \<noteq> Token \<longrightarrow> d' m' = sample_db m'))"
proof -
  let ?rq = "\<lparr>POST = [], body = Parses (PDict [(''role'', PStr ''teacher''), (''username'', PStr ''dan''),
                                        (''password'', PStr ''pw4'')])\<rparr>"
  obtain r d' where run: "create_app_user sample_env ?rq sample_db = (r, d')"
    by (cases "create_app_user sample_env ?rq sample_db")
  have r: "r = Inr \<lparr>status = 200, content = Some (PDict [(''token'', PStr ''9944b09199c6'')])\<rparr>"
    using run
    by (simp add: create_app_user_def request_data_def USER_ROLES_keys_def form_for_def
          ROLES_student_def ROLES_teacher_def sample_env_def sample_form_def dict_get_def
          py_item_def save_def post_save_def create_def accepts_def field_ok_def value_for_def
          unique_ok_def columns_def Let_def sample_db_tables col_def pks_def next_pk_def
          objects_get_def objects_filter_def HttpResponse_def sample_hash_def
          split: prod.splits sum.splits)
  let ?resp = "\<lparr>status = 200, content = Some (PDict [(''token'', PStr ''9944b09199c6'')])\<rparr>"
  have run': "create_app_user sample_env ?rq sample_db = (Inr ?resp, d')"
    using run r by simp
  have st: "status ?resp = 200" by simp
  show ?thesis
    using run' st create_app_user_frame [OF run' st]
    by (intro exI [of _ ?resp] exI [of _ d'] conjI)
qed

subsection \<open>Token issuance\<close>

text \<open>
  C3. With valid credentials (and the account's token in place) the role returned is
  resolved by looking at the Teacher set before the Student set: a user name found among
  the teachers gives the role teacher, whatever the Student set holds; the role is
  student only for a user name that is among the students and not among the teachers.
\<close>

theorem obtain_token_teacher_first:
  assumes "AuthTokenSerializer e d (DATA request) = Valid usr"
      and "objects_get Token [(''user'', PInt (pk usr))] d = Inr token"
  shows "\<exists>role.
           ObtainUserAuthToken_post e request d =
             (Inr \<lparr>status = 200,
                    content = Some (PDict [(''token'', col token ''key''), (''role'', PStr role)])\<rparr>, d)
         \<and> (with_username Teacher (col usr ''username'') d \<noteq> [] \<longrightarrow> role = ''teacher'')
         \<and> (role = ''student'' \<longleftrightarrow>
              with_username Student (col usr ''username'') d \<noteq> []
              \<and> with_username Teacher (col usr ''username'') d = [])"
  using assms
  by (simp add: ObtainUserAuthToken_post_def ROLES_teacher_def ROLES_student_def Response_def
        HTTP_200_OK_def)

theorem obtain_token_teacher_first_witness:
  "AuthTokenSerializer sample_env sample_db
      (DATA \<lparr>DATA = PDict [(''username'', PStr ''bob''), (''password'', PStr ''pw1'')],
             user = \<lparr>pk = 0, cols = []\<rparr>\<rparr>) =
     Valid \<lparr>pk = 1, cols = [(''username'', PStr ''bob''), (''password'', PStr ''sha1$pw1''),
                             (''is_active'', PBool True)]\<rparr>
   \<and> with_username Teacher (PStr ''bob'') sample_db \<noteq> []
   \<and> with_username Student (PStr ''bob'') sample_db \<noteq> []
   \<and> ObtainUserAuthToken_post sample_env
        \<lparr>DATA = PDict [(''username'', PStr ''bob''), (''password'', PStr ''pw1'')],
         user = \<lparr>pk = 0, cols = []\<rparr>\<rparr> sample_db =
       (Inr \<lparr>status = 200,
              content = Some (PDict [(''token'', PStr ''1f0c5a''), (''role'', PStr ''teacher'')])\<rparr>,
        sample_db)"
proof -
  let ?bob = "\<lparr>pk = 1, cols = [(''username'', PStr ''bob''), (''password'', PStr ''sha1$pw1''),
                             (''is_active'', PBool True)]\<rparr>"
  let ?rq = "\<lparr>DATA = PDict [(''username'', PStr ''bob''), (''password'', PStr ''pw1'')],
         user = \<lparr>pk = 0, cols = []\<rparr>\<rparr>"
  let ?tok = "\<lparr>pk = 1, cols = [(''key'', PStr ''1f0c5a''), (''user'', PInt 1)]\<rparr>"
  have 1: "AuthTokenSerializer sample_env sample_db (DATA ?rq) = Valid ?bob"
    by (simp add: sample_env_def sample_credentials_def sample_db_tables col_def dict_get_def
          sample_hash_def)
  have 2: "objects_get Token [(''user'', PInt (pk ?bob))] sample_db = Inr ?tok"
    by (simp add: objects_get_def objects_filter_def sample_db_tables col_def dict_get_def)
  have t: "with_username Teacher (PStr ''bob'') sample_db \<noteq> []"
    by (simp add: with_username_def sample_db_tables col_def dict_get_def)
  have s: "with_username Student (PStr ''bob'') sample_db \<noteq> []"
    by (simp add: with_username_def sample_db_tables col_def dict_get_def)
  have u: "col ?bob ''username'' = PStr ''bob''" "col ?tok ''key'' = PStr ''1f0c5a''"
    by (simp_all add: col_def dict_get_def)
  show ?thesis
    using 1 t s obtain_token_teacher_first [OF 1 2] unfolding u
    by auto
qed




subsection \<open>Device registration\<close>

lemma register_first:
  assumes "GCMDeviceSerializer e d (DATA request) = Valid object"
      and "dict_get object ''registration_id'' = rid" and "rid \<noteq> PNone"
      and "user request \<in> set (d User)"
      and "col (user request) ''username'' = PStr name"
      and "objects_filter GCMDevice
             [(''user'', PInt (pk (user request))), (''registration_id'', rid)] d = []"
  shows "UserGCMRegistration_post e request d =
     (Inr \<lparr>status = 200,
            content = Some (PDict [(''active'', PBool True), (''created'', PBool True)])\<rparr>,
      d(GCMDevice := d GCMDevice @
         [\<lparr>pk = next_pk (d GCMDevice),
           cols = [(''name'', PStr (name @ '' device'')), (''active'', PBool True),
                   (''user'', PInt (pk (user request))),
                   (''device_id'', or_None (dict_get object ''device_id'')),
                   (''registration_id'', rid)]\<rparr>]))"
proof -
  have "pk (user request) \<in> set (pks d User)" using assms(4) by (simp add: pks_def)
  then have "create GCMDevice
     ([(''user'', PInt (pk (user request))), (''registration_id'', rid)] @
      [(''name'', PStr (name @ '' device'')),
       (''device_id'', or_None (dict_get object ''device_id''))]) d =
     (Inr \<lparr>pk = next_pk (d GCMDevice),
           cols = [(''name'', PStr (name @ '' device'')), (''active'', PBool True),
                   (''user'', PInt (pk (user request))),
                   (''device_id'', or_None (dict_get object ''device_id'')),
                   (''registration_id'', rid)]\<rparr>,
      d(GCMDevice := d GCMDevice @
         [\<lparr>pk = next_pk (d GCMDevice),
           cols = [(''name'', PStr (name @ '' device'')), (''active'', PBool True),
                   (''user'', PInt (pk (user request))),
                   (''device_id'', or_None (dict_get object ''device_id'')),
                   (''registration_id'', rid)]\<rparr>]))"
    using assms(3)
    by (simp add: create_def accepts_def field_ok_def value_for_def unique_ok_def columns_def
          Let_def)
  then show ?thesis
    using assms(1,2,5,6)
    by (simp add: UserGCMRegistration_post_def get_or_create_def Response_def HTTP_200_OK_def
          col_def dict_get_def)
qed

lemma register_again:
  assumes "GCMDeviceSerializer e d (DATA request) = Valid object"
      and "col (user request) ''username'' = PStr name"
      and "objects_filter GCMDevice
             [(''user'', PInt (pk (user request))),
              (''registration_id'', dict_get object ''registration_id'')] d = [dev]"
  shows "UserGCMRegistration_post e request d =
     (Inr \<lparr>status = 200,
            content = Some (PDict [(''active'', col dev ''active''), (''created'', PBool False)])\<rparr>,
      d)"
  using assms
  by (simp add: UserGCMRegistration_post_def get_or_create_def Response_def HTTP_200_OK_def)

text \<open>
  C4. An authenticated account registers a registration id that it has not registered
  before, and then the same id once more (the device id of the second request may
  differ). The first call answers created = true and stores one device named after the
  account; the second answers created = false and leaves the database, and so the device
  and its name, exactly as the first call left it.
\<close>

theorem register_device_twice:
  assumes "GCMDeviceSerializer e d (DATA request1) = Valid object1"
      and "dict_get object1 ''registration_id'' = rid" and "rid \<noteq> PNone"
      and "user request1 \<in> set (d User)"
      and "col (user request1) ''username'' = PStr name"
      and "objects_filter GCMDevice
             [(''user'', PInt (pk (user request1))), (''registration_id'', rid)] d = []"
      and "user request2 = user request1"
      and "GCMDeviceSerializer e (snd (UserGCMRegistration_post e request1 d)) (DATA request2)
             = Valid object2"
      and "dict_get object2 ''registration_id'' = rid"
  shows "\<exists>dev d1.
           UserGCMRegistration_post e request1 d =
             (Inr \<lparr>status = 200,
                    content = Some (PDict [(''active'', PBool True), (''created'', PBool True)])\<rparr>,
              d1)
         \<and> d1 = d(GCMDevice := d GCMDevice @ [dev])
         \<and> col dev ''name'' = PStr (name @ '' device'')
         \<and> UserGCMRegistration_post e request2 d1 =
             (Inr \<lparr>status = 200,
                    content = Some (PDict [(''active'', PBool True), (''created'', PBool False)])\<rparr>,
              d1)"
proof -
  let ?dev = "\<lparr>pk = next_pk (d GCMDevice),
           cols = [(''name'', PStr (name @ '' device'')), (''active'', PBool True),
                   (''user'', PInt (pk (user request1))),
                   (''device_id'', or_None (dict_get object1 ''device_id'')),
                   (''registration_id'', rid)]\<rparr>"
  let ?d1 = "d(GCMDevice := d GCMDevice @ [?dev])"
  note first = register_first [OF assms(1-6)]
  have v2: "GCMDeviceSerializer e ?d1 (DATA request2) = Valid object2"
    using assms(8) first by simp
  have f: "objects_filter GCMDevice
             [(''user'', PInt (pk (user request2))),
              (''registration_id'', dict_get object2 ''registration_id'')] ?d1 = [?dev]"
    using assms(6,7,9) by (simp add: objects_filter_def col_def dict_get_def)
  have n: "col (user request2) ''username'' = PStr name" using assms(5,7) by simp
  have second: "UserGCMRegistration_post e request2 ?d1 =
     (Inr \<lparr>status = 200,
            content = Some (PDict [(''active'', PBool True), (''created'', PBool False)])\<rparr>, ?d1)"
    using register_again [OF v2 n f] by (simp add: col_def dict_get_def)
  have "col ?dev ''name'' = PStr (name @ '' device'')" by (simp add: col_def dict_get_def)
  with first second show ?thesis by blast
qed

theorem register_device_twice_witness:
  "user \<lparr>DATA = PDict [(''registration_id'', PStr ''APA91b''), (''device_id'', PInt 7)],
          user = \<lparr>pk = 1, cols = [(''username'', PStr ''bob''), (''password'', PStr ''sha1$pw1''),
                                   (''is_active'', PBool True)]\<rparr>\<rparr> \<in> set (sample_db User)
   \<and> objects_filter GCMDevice
        [(''user'', PInt 1), (''registration_id'', PStr ''APA91b'')] sample_db = []
   \<and> (\<exists>dev d1.
         UserGCMRegistration_post sample_env
           \<lparr>DATA = PDict [(''registration_id'', PStr ''APA91b''), (''device_id'', PInt 7)],
            user = \<lparr>pk = 1, cols = [(''username'', PStr ''bob''), (''password'', PStr ''sha1$pw1''),
                                     (''is_active'', PBool True)]\<rparr>\<rparr> sample_db =
           (Inr \<lparr>status = 200,
                  content = Some (PDict [(''active'', PBool True), (''created'', PBool True)])\<rparr>,
            d1)
       \<and> d1 = sample_db(GCMDevice := sample_db GCMDevice @ [dev])
       \<and> col dev ''name'' = PStr ''bob device''
       \<and> UserGCMRegistration_post sample_env
           \<lparr>DATA = PDict [(''registration_id'', PStr ''APA91b''), (''device_id'', PInt 8)],
            user = \<lparr>pk = 1, cols = [(''username'', PStr ''bob''), (''password'', PStr ''sha1$pw1''),
                                     (''is_active'', PBool True)]\<rparr>\<rparr> d1 =
           (Inr \<lparr>status = 200,
                  content = Some (PDict [(''active'', PBool True), (''created'', PBool False)])\<rparr>,
            d1))"
proof -
  let ?bob = "\<lparr>pk = 1, cols = [(''username'', PStr ''bob''), (''password'', PStr ''sha1$pw1''),
                                   (''is_active'', PBool True)]\<rparr>"
  let ?o1 = "[(''registration_id'', PStr ''APA91b''), (''device_id'', PInt 7)]"
  let ?o2 = "[(''registration_id'', PStr ''APA91b''), (''device_id'', PInt 8)]"
  let ?r1 = "\<lparr>DATA = PDict ?o1, user = ?bob\<rparr>"
  let ?r2 = "\<lparr>DATA = PDict ?o2, user = ?bob\<rparr>"
  have 1: "GCMDeviceSerializer sample_env sample_db (DATA ?r1) = Valid ?o1"
    by (simp add: sample_env_def sample_device_def dict_get_def)
  have 2: "dict_get ?o1 ''registration_id'' = PStr ''APA91b''" by (simp add: dict_get_def)
  have 3: "PStr ''APA91b'' \<noteq> PNone" by simp
  have 4: "user ?r1 \<in> set (sample_db User)" by (simp add: sample_db_tables)
  have 5: "col (user ?r1) ''username'' = PStr ''bob''" by (simp add: col_def dict_get_def)
  have 6: "objects_filter GCMDevice
             [(''user'', PInt (pk (user ?r1))), (''registration_id'', PStr ''APA91b'')] sample_db = []"
    by (simp add: objects_filter_def sample_db_tables)
  have 7: "user ?r2 = user ?r1" by simp
  have 8: "GCMDeviceSerializer sample_env (snd (UserGCMRegistration_post sample_env ?r1 sample_db))
             (DATA ?r2) = Valid ?o2"
    by (simp add: sample_env_def sample_device_def dict_get_def)
  have 9: "dict_get ?o2 ''registration_id'' = PStr ''APA91b''" by (simp add: dict_get_def)
  show ?thesis
    using 4 6 register_device_twice [OF 1 2 3 4 5 6 7 8 9]
    by simp
qed

text \<open>
  C10. On a first registration, a device id that is false in Python's sense (the empty
  string, zero, an absent value) is stored as \<^verbatim>\<open>None\<close>, not as the value submitted.
\<close>

theorem register_device_falsy_device_id:
  assumes "GCMDeviceSerializer e d (DATA request) = Valid object"
      and "\<not> truthy (dict_get object ''device_id'')"
      and "dict_get object ''registration_id'' = rid" and "rid \<noteq> PNone"
      and "user request \<in> set (d User)"
      and "col (user request) ''username'' = PStr name"
      and "objects_filter GCMDevice
             [(''user'', PInt (pk (user request))), (''registration_id'', rid)] d = []"
  shows "\<exists>dev.
           UserGCMRegistration_post e request d =
             (Inr \<lparr>status = 200,
                    content = Some (PDict [(''active'', PBool True), (''created'', PBool True)])\<rparr>,
              d(GCMDevice := d GCMDevice @ [dev]))
         \<and> col dev ''device_id'' = PNone"
proof -
  let ?dev = "\<lparr>pk = next_pk (d GCMDevice),
           cols = [(''name'', PStr (name @ '' device'')), (''active'', PBool True),
                   (''user'', PInt (pk (user request))),
                   (''device_id'', or_None (dict_get object ''device_id'')),
                   (''registration_id'', rid)]\<rparr>"
  have "col ?dev ''device_id'' = PNone"
    using assms(2) by (simp add: col_def dict_get_def or_None_def)
  with register_first [OF assms(1) assms(3-7)] show ?thesis by blast
qed

theorem register_device_falsy_device_id_witness:
  "\<not> truthy (dict_get [(''registration_id'', PStr ''APA91b''), (''device_id'', PStr '''')]
                ''device_id'')
   \<and> objects_filter GCMDevice
        [(''user'', PInt 2), (''registration_id'', PStr ''APA91b'')] sample_db = []
   \<and> (\<exists>dev.
         UserGCMRegistration_post sample_env
           \<lparr>DATA = PDict [(''registration_id'', PStr ''APA91b''), (''device_id'', PStr '''')],
            user = \<lparr>pk = 2, cols = [(''username'', PStr ''carol''),
                                     (''password'', PStr ''sha1$pw2''),
                                     (''is_active'', PBool True)]\<rparr>\<rparr> sample_db =
           (Inr \<lparr>status = 200,
                  content = Some (PDict [(''active'', PBool True), (''created'', PBool True)])\<rparr>,
            sample_db(GCMDevice := sample_db GCMDevice @ [dev]))
       \<and> col dev ''device_id'' = PNone)"
proof -
  let ?carol = "\<lparr>pk = 2, cols = [(''username'', PStr ''carol''), (''password'', PStr ''sha1$pw2''),
                                   (''is_active'', PBool True)]\<rparr>"
  let ?o = "[(''registration_id'', PStr ''APA91b''), (''device_id'', PStr '''')]"
  let ?r = "\<lparr>DATA = PDict ?o, user = ?carol\<rparr>"
  have 1: "GCMDeviceSerializer sample_env sample_db (DATA ?r) = Valid ?o"
    by (simp add: sample_env_def sample_device_def dict_get_def)
  have 2: "\<not> truthy (dict_get ?o ''device_id'')" by (simp add: dict_get_def)
  have 3: "dict_get ?o ''registration_id'' = PStr ''APA91b''" by (simp add: dict_get_def)
  have 4: "PStr ''APA91b'' \<noteq> PNone" by simp
  have 5: "user ?r \<in> set (sample_db User)" by (simp add: sample_db_tables)
  have 6: "col (user ?r) ''username'' = PStr ''carol''" by (simp add: col_def dict_get_def)
  have 7: "objects_filter GCMDevice
             [(''user'', PInt (pk (user ?r))), (''registration_id'', PStr ''APA91b'')] sample_db = []"
    by (simp add: objects_filter_def sample_db_tables)
  show ?thesis
    using 2 7 register_device_falsy_device_id [OF 1 2 3 4 5 6 7]
    by simp
qed

subsection \<open>Error responses\<close>

text \<open>
  C6, as the views have it. Every error the views answer themselves is a 400 response
  that leaves the database untouched. An unsupported role carries the message as a JSON
  string; a form or a serializer that rejects the payload (wrong credentials included)
  carries its field errors as a JSON object. A body that \<^verbatim>\<open>json.loads\<close> cannot parse is
  answered by \<^verbatim>\<open>HttpResponseBadRequest()\<close> without arguments: status 400 and an empty body.
\<close>

theorem error_responses:
  "(request_data rq = Inl ValueError \<longrightarrow>
      create_app_user e rq d = (Inr \<lparr>status = 400, content = None\<rparr>, d))
   \<and> (request_data rq = Inr (PDict kvs)
        \<and> dict_get kvs ''role'' \<notin> {PStr ''student'', PStr ''teacher''} \<longrightarrow>
      create_app_user e rq d =
        (Inr \<lparr>status = 400, content = Some (PStr ''Role not supported'')\<rparr>, d))
   \<and> (request_data rq = Inr (PDict kvs) \<and> dict_get kvs ''role'' = PStr ''student''
        \<and> StudentForm e d (PDict kvs) = Errors es \<longrightarrow>
      create_app_user e rq d = (Inr \<lparr>status = 400, content = Some (errors_json es)\<rparr>, d))
   \<and> (request_data rq = Inr (PDict kvs) \<and> dict_get kvs ''role'' = PStr ''teacher''
        \<and> TeacherForm e d (PDict kvs) = Errors es \<longrightarrow>
      create_app_user e rq d = (Inr \<lparr>status = 400, content = Some (errors_json es)\<rparr>, d))
   \<and> (AuthTokenSerializer e d (DATA request) = Errors es \<longrightarrow>
      ObtainUserAuthToken_post e request d =
        (Inr \<lparr>status = 400, content = Some (errors_json es)\<rparr>, d))
   \<and> (GCMDeviceSerializer e d (DATA request) = Errors es \<longrightarrow>
      UserGCMRegistration_post e request d =
        (Inr \<lparr>status = 400, content = Some (errors_json es)\<rparr>, d))"
  by (simp add: create_app_user_def HttpResponseBadRequest_def USER_ROLES_keys_def form_for_def
        ROLES_student_def ROLES_teacher_def ObtainUserAuthToken_post_def
        UserGCMRegistration_post_def Response_def HTTP_400_BAD_REQUEST_def)

theorem error_responses_witness:
  "create_app_user sample_env \<lparr>POST = [], body = Unparseable\<rparr> sample_db =
     (Inr \<lparr>status = 400, content = None\<rparr>, sample_db)
   \<and> create_app_user sample_env \<lparr>POST = [(''role'', ''admin'')], body = Unparseable\<rparr> sample_db =
     (Inr \<lparr>status = 400, content = Some (PStr ''Role not supported'')\<rparr>, sample_db)
   \<and> create_app_user sample_env \<lparr>POST = [(''role'', ''student'')], body = Unparseable\<rparr> sample_db =
     (Inr \<lparr>status = 400,
            content = Some (PDict [(''username'', PList [PStr ''This field is required.''])])\<rparr>,
      sample_db)
   \<and> create_app_user sample_env
       \<lparr>POST = [(''role'', ''teacher''), (''username'', ''dan'')], body = Unparseable\<rparr> sample_db =
     (Inr \<lparr>status = 400,
            content = Some (PDict [(''password'', PList [PStr ''This field is required.''])])\<rparr>,
      sample_db)
   \<and> ObtainUserAuthToken_post sample_env
       \<lparr>DATA = PDict [(''username'', PStr ''bob''), (''password'', PStr ''wrong'')],
        user = \<lparr>pk = 0, cols = []\<rparr>\<rparr> sample_db =
     (Inr \<lparr>status = 400,
            content = Some (PDict [(''non_field_errors'',
                        PList [PStr ''Unable to login with provided credentials.''])])\<rparr>,
      sample_db)
   \<and> UserGCMRegistration_post sample_env
       \<lparr>DATA = PDict [(''device_id'', PInt 7)],
        user = \<lparr>pk = 1, cols = [(''username'', PStr ''bob''), (''password'', PStr ''sha1$pw1''),
                                 (''is_active'', PBool True)]\<rparr>\<rparr> sample_db =
     (Inr \<lparr>status = 400,
            content = Some (PDict [(''registration_id'', PList [PStr ''This field is required.''])])\<rparr>,
      sample_db)"
proof -
  let ?q1 = "\<lparr>POST = [], body = Unparseable\<rparr>"
  let ?q2 = "\<lparr>POST = [(''role'', ''admin'')], body = Unparseable\<rparr>"
  let ?q3 = "\<lparr>POST = [(''role'', ''student'')], body = Unparseable\<rparr>"
  let ?q4 = "\<lparr>POST = [(''role'', ''teacher''), (''username'', ''dan'')], body = Unparseable\<rparr>"
  let ?r5 = "\<lparr>DATA = PDict [(''username'', PStr ''bob''), (''password'', PStr ''wrong'')],
        user = \<lparr>pk = 0, cols = []\<rparr>\<rparr>"
  let ?r6 = "\<lparr>DATA = PDict [(''device_id'', PInt 7)],
        user = \<lparr>pk = 1, cols = [(''username'', PStr ''bob''), (''password'', PStr ''sha1$pw1''),
                                 (''is_active'', PBool True)]\<rparr>\<rparr>"
  have 1: "request_data ?q1 = Inl ValueError" by (simp add: request_data_def)
  have 2: "request_data ?q2 = Inr (PDict [(''role'', PStr ''admin'')])
           \<and> dict_get [(''role'', PStr ''admin'')] ''role'' \<notin> {PStr ''student'', PStr ''teacher''}"
    by (simp add: request_data_def dict_get_def)
  have 3: "request_data ?q3 = Inr (PDict [(''role'', PStr ''student'')])
           \<and> dict_get [(''role'', PStr ''student'')] ''role'' = PStr ''student''
           \<and> StudentForm sample_env sample_db (PDict [(''role'', PStr ''student'')])
               = Errors [(''username'', [''This field is required.''])]"
    by (simp add: request_data_def dict_get_def sample_env_def sample_form_def)
  have 4: "request_data ?q4 = Inr (PDict [(''role'', PStr ''teacher''), (''username'', PStr ''dan'')])
           \<and> dict_get [(''role'', PStr ''teacher''), (''username'', PStr ''dan'')] ''role''
               = PStr ''teacher''
           \<and> TeacherForm sample_env sample_db
                 (PDict [(''role'', PStr ''teacher''), (''username'', PStr ''dan'')])
               = Errors [(''password'', [''This field is required.''])]"
    by (simp add: request_data_def dict_get_def sample_env_def sample_form_def)
  have 5: "AuthTokenSerializer sample_env sample_db (DATA ?r5)
             = Errors [(''non_field_errors'', [''Unable to login with provided credentials.''])]"
    by (simp add: sample_env_def sample_credentials_def sample_db_tables col_def dict_get_def
          sample_hash_def)
  have 6: "GCMDeviceSerializer sample_env sample_db (DATA ?r6)
             = Errors [(''registration_id'', [''This field is required.''])]"
    by (simp add: sample_env_def sample_device_def dict_get_def)
  show ?thesis
    using 1 2 3 4 5 6
      error_responses [where rq = ?q1 and e = sample_env and d = sample_db]
      error_responses [where rq = ?q2 and e = sample_env and d = sample_db
         and kvs = "[(''role'', PStr ''admin'')]"]
      error_responses [where rq = ?q3 and e = sample_env and d = sample_db
         and kvs = "[(''role'', PStr ''student'')]"
         and es = "[(''username'', [''This field is required.''])]"]
      error_responses [where rq = ?q4 and e = sample_env and d = sample_db
         and kvs = "[(''role'', PStr ''teacher''), (''username'', PStr ''dan'')]"
         and es = "[(''password'', [''This field is required.''])]"]
      error_responses [where e = sample_env and d = sample_db and request = ?r5
         and es = "[(''non_field_errors'', [''Unable to login with provided credentials.''])]"]
      error_responses [where e = sample_env and d = sample_db and request = ?r6
         and es = "[(''registration_id'', [''This field is required.''])]"]
    by (simp add: errors_json_def)
qed

text \<open>
  The request that shows it: no form fields and a body that is not JSON. The response has
  status 400 and no content at all.
\<close>

theorem malformed_body_empty_response:
  "create_app_user sample_env \<lparr>POST = [], body = Unparseable\<rparr> sample_db =
     (Inr \<lparr>status = 400, content = None\<rparr>, sample_db)"
  by (simp add: create_app_user_def request_data_def HttpResponseBadRequest_def)

subsection \<open>The schema: one TeachingSubject for a Subject\<close>

lemma col_subject_columns:
  "col \<lparr>pk = i, cols = columns TeachingSubject vals\<rparr> ''subject''
     = value_for vals (ModelField ''subject'' (OneToOneField Subject) [])"
  by (simp add: col_def columns_def dict_get_def)

lemma subject_field_ok:
  "accepts d TeachingSubject others vals \<Longrightarrow>
     field_ok d others vals (ModelField ''subject'' (OneToOneField Subject) [])"
  by (simp add: accepts_def)

lemma subject_of_accepted:
  assumes "accepts d TeachingSubject others vals"
  shows "col \<lparr>pk = i, cols = columns TeachingSubject vals\<rparr> ''subject'' \<noteq> PNone"
    and "list_all (\<lambda>r. col r ''subject''
            \<noteq> col \<lparr>pk = i, cols = columns TeachingSubject vals\<rparr> ''subject'') others"
  using subject_field_ok [OF assms] unfolding col_subject_columns
  by (auto simp: field_ok_def unique_ok_def Let_def)

lemma distinct_map_replace:
  assumes "distinct (map pk rows)" and "distinct (map f rows)"
      and "\<forall>x\<in>set rows. pk x \<noteq> i \<longrightarrow> f x \<noteq> f r"
  shows "distinct (map f (map (\<lambda>x. if pk x = i then r else x) rows))"
  using assms
proof (induction rows)
  case Nil
  then show ?case by simp
next
  case (Cons x xs)
  show ?case
  proof (cases "pk x = i")
    case True
    have "\<forall>y\<in>set xs. pk y \<noteq> i"
    proof
      fix y
      assume "y \<in> set xs"
      then have "pk y \<in> set (map pk xs)" by simp
      moreover have "pk x \<notin> set (map pk xs)" using Cons.prems(1) by simp
      ultimately show "pk y \<noteq> i" using True by metis
    qed
    then have same: "map (\<lambda>x. if pk x = i then r else x) xs = xs"
      by (simp add: map_idI)
    have "f r \<notin> f ` set xs" using \<open>\<forall>y\<in>set xs. pk y \<noteq> i\<close> Cons.prems(3) by auto
    then show ?thesis using True same Cons.prems(2) by simp
  next
    case False
    have ih: "distinct (map f (map (\<lambda>x. if pk x = i then r else x) xs))"
      using Cons by simp
    have new: "f x \<noteq> f r" using False Cons.prems(3) by simp
    have old: "f x \<notin> f ` set xs" using Cons.prems(2) by simp
    have notin: "f x \<notin> set (map f (map (\<lambda>x. if pk x = i then r else x) xs))"
    proof
      assume "f x \<in> set (map f (map (\<lambda>x. if pk x = i then r else x) xs))"
      then obtain y where y: "y \<in> set xs" "f x = f (if pk y = i then r else y)"
        by auto
      show False
      proof (cases "pk y = i")
        case True
        with y new show False by simp
      next
        case False
        with y have "f x = f y" by simp
        with y(1) old show False by auto
      qed
    qed
    have "map f (map (\<lambda>x. if pk x = i then r else x) (x # xs))
            = f x # map f (map (\<lambda>x. if pk x = i then r else x) xs)"
      using False by simp
    then show ?thesis using ih notin by (metis distinct.simps(2))
  qed
qed

lemma replace_keeps_pks:
  "map pk (map (\<lambda>x. if pk x = i then \<lparr>pk = i, cols = c\<rparr> else x) rows) = map pk rows"
  by (induction rows) auto

lemma constrained_append:
  assumes "constrained d" and "accepts d m (d m) vals"
  shows "constrained (d(m := d m @ [\<lparr>pk = next_pk (d m), cols = columns m vals\<rparr>]))"
proof -
  let ?r = "\<lparr>pk = next_pk (d m), cols = columns m vals\<rparr>"
  let ?d = "d(m := d m @ [?r])"
  have keys: "distinct (pks ?d m')" for m'
  proof (cases "m' = m")
    case True
    have "pk ?r \<notin> set (pks d m)" using next_pk_fresh [of d m] by simp
    moreover have "distinct (pks d m)" using assms(1) by (simp add: constrained_def)
    ultimately show ?thesis using True by (simp add: pks_def)
  next
    case False
    then show ?thesis using assms(1) by (simp add: constrained_def pks_def)
  qed
  have subjects:
    "distinct (map (\<lambda>r. col r ''subject'') (?d TeachingSubject))
     \<and> PNone \<notin> (\<lambda>r. col r ''subject'') ` set (?d TeachingSubject)"
  proof (cases "m = TeachingSubject")
    case False
    then show ?thesis using assms(1) by (simp add: constrained_def)
  next
    case True
    have acc: "accepts d TeachingSubject (d TeachingSubject) vals"
      using assms(2) True by simp
    note s = subject_of_accepted [OF acc, of "next_pk (d TeachingSubject)"]
    have new: "col ?r ''subject'' \<notin> (\<lambda>r. col r ''subject'') ` set (d TeachingSubject)"
      using s(2) True by (auto simp: list_all_iff)
    have nn: "col ?r ''subject'' \<noteq> PNone" using s(1) True by simp
    have old: "distinct (map (\<lambda>r. col r ''subject'') (d TeachingSubject))"
      "PNone \<notin> (\<lambda>r. col r ''subject'') ` set (d TeachingSubject)"
      using assms(1) by (simp_all add: constrained_def)
    have tbl: "?d TeachingSubject = d TeachingSubject @ [?r]" using True by simp
    show ?thesis unfolding tbl using new nn old by auto
  qed
  show ?thesis unfolding constrained_def using keys subjects by blast
qed

lemma constrained_replace:
  assumes "constrained d"
      and "accepts d m (filter (\<lambda>r. pk r \<noteq> i) (d m)) vals"
  shows "constrained
           (d(m := map (\<lambda>x. if pk x = i then \<lparr>pk = i, cols = columns m vals\<rparr> else x) (d m)))"
proof -
  let ?r = "\<lparr>pk = i, cols = columns m vals\<rparr>"
  let ?rows = "map (\<lambda>x. if pk x = i then ?r else x) (d m)"
  let ?d = "d(m := ?rows)"
  have keys: "distinct (pks ?d m')" for m'
  proof (cases "m' = m")
    case True
    have "pks ?d m = pks d m"
      unfolding pks_def by (simp del: map_map add: replace_keeps_pks)
    then show ?thesis using True assms(1) by (simp add: constrained_def)
  next
    case False
    then show ?thesis using assms(1) by (simp add: constrained_def pks_def)
  qed
  have subjects:
    "distinct (map (\<lambda>r. col r ''subject'') (?d TeachingSubject))
     \<and> PNone \<notin> (\<lambda>r. col r ''subject'') ` set (?d TeachingSubject)"
  proof (cases "m = TeachingSubject")
    case False
    then show ?thesis using assms(1) by (simp add: constrained_def)
  next
    case True
    have acc: "accepts d TeachingSubject (filter (\<lambda>r. pk r \<noteq> i) (d TeachingSubject)) vals"
      using assms(2) True by simp
    note s = subject_of_accepted [OF acc, of i]
    have old: "distinct (map pk (d TeachingSubject))"
      "distinct (map (\<lambda>r. col r ''subject'') (d TeachingSubject))"
      "PNone \<notin> (\<lambda>r. col r ''subject'') ` set (d TeachingSubject)"
      using assms(1) by (simp_all add: constrained_def pks_def)
    have other: "\<forall>x\<in>set (d TeachingSubject). pk x \<noteq> i \<longrightarrow>
                   col x ''subject'' \<noteq> col ?r ''subject''"
      using s(2) True by (simp add: list_all_iff)
    have tbl: "?d TeachingSubject = ?rows" using True by simp
    have 1: "distinct (map (\<lambda>r. col r ''subject'') ?rows)"
      using distinct_map_replace [OF old(1) old(2) other] True by simp
    have nn: "col ?r ''subject'' \<noteq> PNone" using s(1) True by simp
    have 2: "PNone \<notin> (\<lambda>r. col r ''subject'') ` set ?rows"
    proof
      assume "PNone \<in> (\<lambda>r. col r ''subject'') ` set ?rows"
      then obtain y where y: "y \<in> set (d m)"
        "PNone = col (if pk y = i then ?r else y) ''subject''" by auto
      show False
      proof (cases "pk y = i")
        case True
        with y nn show False by simp
      next
        case False
        with y old(3) \<open>m = TeachingSubject\<close> show False by auto
      qed
    qed
    show ?thesis unfolding tbl using 1 2 by (rule conjI)
  qed
  show ?thesis unfolding constrained_def using keys subjects by blast
qed

lemma constrained_delete:
  assumes "constrained d"
  shows "constrained (delete gathered d)"
proof -
  have "distinct (pks (delete gathered d) m)" for m
    using assms by (simp add: constrained_def delete_def pks_def distinct_map_filter)
  moreover have "distinct (map (\<lambda>r. col r ''subject'') (delete gathered d TeachingSubject))"
    using assms by (simp add: constrained_def delete_def distinct_map_filter)
  moreover have "PNone \<notin> (\<lambda>r. col r ''subject'') ` set (delete gathered d TeachingSubject)"
    using assms by (auto simp: constrained_def delete_def)
  ultimately show ?thesis unfolding constrained_def by blast
qed

lemma reachable_constrained:
  assumes "reachable d"
  shows "constrained d"
  using assms
proof (induction rule: reachable.induct)
  case initial
  show ?case by (simp add: constrained_def empty_db_def pks_def)
next
  case (created d m vals)
  show ?case
  proof (cases "accepts d m (d m) vals")
    case True
    then have eq: "snd (create m vals d)
                 = d(m := d m @ [\<lparr>pk = next_pk (d m), cols = columns m vals\<rparr>])"
      by (simp add: create_def Let_def)
    show ?thesis unfolding eq by (rule constrained_append [OF created.IH True])
  next
    case False
    then show ?thesis using created.IH by (simp add: create_def)
  qed
next
  case (updated d m i vals)
  show ?case
  proof (cases "i \<in> set (pks d m) \<and> accepts d m (filter (\<lambda>r. pk r \<noteq> i) (d m)) vals")
    case True
    then have eq: "snd (update m i vals d)
       = d(m := map (\<lambda>x. if pk x = i then \<lparr>pk = i, cols = columns m vals\<rparr> else x) (d m))"
      by (simp add: update_def Let_def)
    show ?thesis unfolding eq by (rule constrained_replace [OF updated.IH conjunct2 [OF True]])
  next
    case False
    then show ?thesis using updated.IH by (auto simp: update_def)
  qed
next
  case (deleted d gathered)
  show ?case by (rule constrained_delete [OF deleted.IH])
qed

lemma distinct_map_at_most_one:
  "distinct (map f xs) \<Longrightarrow> length (filter (\<lambda>x. f x = v) xs) \<le> 1"
proof (induction xs)
  case Nil
  then show ?case by simp
next
  case (Cons x xs)
  show ?case
  proof (cases "f x = v")
    case True
    have "\<forall>y\<in>set xs. f y \<noteq> v"
    proof
      fix y
      assume "y \<in> set xs"
      then have "f y \<in> set (map f xs)" by simp
      moreover have "f x \<notin> set (map f xs)" using Cons.prems by simp
      ultimately show "f y \<noteq> v" using True by metis
    qed
    then have "filter (\<lambda>x. f x = v) xs = []"
      by (simp add: filter_empty_conv)
    then show ?thesis using True by simp
  next
    case False
    then show ?thesis using Cons by simp
  qed
qed

lemma reachable_fold_create:
  "reachable d \<Longrightarrow> reachable (fold (\<lambda>(m, vals) d. snd (create m vals d)) steps d)"
proof (induction steps arbitrary: d)
  case Nil
  then show ?case by simp
next
  case (Cons step steps)
  obtain m vals where step: "step = (m, vals)" by (cases step)
  have "reachable (snd (create m vals d))" using Cons.prems by (rule reachable.created)
  then show ?case using Cons.IH step by simp
qed

lemma sample_school_tables:
  "sample_school CourseLabel = [\<lparr>pk = 1, cols = [(''name'', PStr ''A'')]\<rparr>]"
  "sample_school Degree =
     [\<lparr>pk = 1, cols = [(''title'', PStr ''Computer Science''), (''school'', PInt 1)]\<rparr>]"
  "sample_school SemesterDate = [\<lparr>pk = 1, cols = [(''date'', PStr ''2014-09-22'')]\<rparr>]"
  "sample_school Course = []"
  "sample_school TeachingSubject =
     [\<lparr>pk = 1, cols = [(''address'', PNone), (''students'', PNone), (''teachers'', PNone),
                       (''course'', PNone), (''subject'', PInt 1)]\<rparr>]"
  by (simp_all add: sample_school_def create_def accepts_def field_ok_def value_for_def
        unique_ok_def columns_def Let_def empty_db_def pks_def next_pk_def)

text \<open>
  C5. In every state the persistence operations lead to, a Subject has at most one
  TeachingSubject; creating a TeachingSubject for a Subject that already has one is
  refused with an integrity error, and the database stays as it was.
\<close>

theorem teaching_subject_one_to_one:
  assumes "reachable d"
  shows "length (filter (\<lambda>r. col r ''subject'' = PInt s) (d TeachingSubject)) \<le> 1
       \<and> ((\<exists>r\<in>set (d TeachingSubject). col r ''subject'' = PInt s)
            \<and> map_of vals ''subject'' = Some (PInt s)
          \<longrightarrow> create TeachingSubject vals d = (Inl IntegrityError, d))"
proof -
  note inv = reachable_constrained [OF assms, unfolded constrained_def]
  have one: "length (filter (\<lambda>r. col r ''subject'' = PInt s) (d TeachingSubject)) \<le> 1"
    using inv distinct_map_at_most_one [of "\<lambda>r. col r ''subject''" "d TeachingSubject" "PInt s"]
    by simp
  have two: "create TeachingSubject vals d = (Inl IntegrityError, d)"
    if "\<exists>r\<in>set (d TeachingSubject). col r ''subject'' = PInt s"
      and "map_of vals ''subject'' = Some (PInt s)"
  proof -
    have v: "value_for vals (ModelField ''subject'' (OneToOneField Subject) []) = PInt s"
      using that(2) by (simp add: value_for_def)
    have "\<not> field_ok d (d TeachingSubject) vals (ModelField ''subject'' (OneToOneField Subject) [])"
      using that(1) by (auto simp: field_ok_def unique_ok_def v list_all_iff)
    then have "\<not> accepts d TeachingSubject (d TeachingSubject) vals"
      using subject_field_ok by blast
    then show ?thesis by (simp add: create_def)
  qed
  show ?thesis using one two by blast
qed

theorem teaching_subject_one_to_one_witness:
  "reachable sample_school
   \<and> (\<exists>r\<in>set (sample_school TeachingSubject). col r ''subject'' = PInt 1)
   \<and> length (filter (\<lambda>r. col r ''subject'' = PInt 1) (sample_school TeachingSubject)) \<le> 1
   \<and> create TeachingSubject [(''address'', PStr ''Room 2.1''), (''subject'', PInt 1)] sample_school
       = (Inl IntegrityError, sample_school)"
proof -
  have r: "reachable sample_school"
    unfolding sample_school_def by (rule reachable_fold_create [OF reachable.initial])
  have e: "\<exists>r\<in>set (sample_school TeachingSubject). col r ''subject'' = PInt 1"
    by (simp add: sample_school_tables col_def dict_get_def)
  have m: "map_of [(''address'', PStr ''Room 2.1''), (''subject'', PInt 1)] ''subject''
             = Some (PInt 1)"
    by simp
  show ?thesis
    using r e m
      teaching_subject_one_to_one [OF r, of 1
        "[(''address'', PStr ''Room 2.1''), (''subject'', PInt 1)]"]
    by blast
qed

subsection \<open>The schema: the semester dates of a Course\<close>

lemma ref_ok_iff:
  "ref_ok d t v \<longleftrightarrow> v = PNone \<or> (\<exists>i\<in>set (pks d t). v = PInt i)"
  by (cases v) auto

text \<open>
  C8. Each of the four semester dates of a Course is optional on its own: whatever
  combination of them is null, and whichever existing semester dates the others refer
  to, the Course is accepted and stored with exactly these values.
\<close>

theorem course_semester_dates_nullable:
  assumes "label \<in> set (pks d CourseLabel)" and "degree \<in> set (pks d Degree)"
      and "ref_ok d SemesterDate first_start" and "ref_ok d SemesterDate first_end"
      and "ref_ok d SemesterDate second_start" and "ref_ok d SemesterDate second_end"
  shows "create Course
           [(''label'', PInt label), (''degree'', PInt degree),
            (''first_semester_start'', first_start), (''first_semester_end'', first_end),
            (''second_semester_start'', second_start), (''second_semester_end'', second_end)] d =
         (Inr \<lparr>pk = next_pk (d Course),
                cols = [(''label'', PInt label), (''language'', PStr ''es''),
                        (''first_semester_start'', first_start),
                        (''first_semester_end'', first_end),
                        (''second_semester_start'', second_start),
                        (''second_semester_end'', second_end),
                        (''level'', PNone), (''degree'', PInt degree)]\<rparr>,
          d(Course := d Course @
             [\<lparr>pk = next_pk (d Course),
               cols = [(''label'', PInt label), (''language'', PStr ''es''),
                       (''first_semester_start'', first_start),
                       (''first_semester_end'', first_end),
                       (''second_semester_start'', second_start),
                       (''second_semester_end'', second_end),
                       (''level'', PNone), (''degree'', PInt degree)]\<rparr>]))"
  using assms
  by (simp add: create_def accepts_def field_ok_def value_for_def unique_ok_def columns_def
        Let_def)

theorem course_semester_dates_nullable_witness:
  "1 \<in> set (pks sample_school CourseLabel) \<and> 1 \<in> set (pks sample_school Degree)
   \<and> ref_ok sample_school SemesterDate (PInt 1) \<and> ref_ok sample_school SemesterDate PNone
   \<and> create Course
        [(''label'', PInt 1), (''degree'', PInt 1),
         (''first_semester_start'', PInt 1), (''first_semester_end'', PNone),
         (''second_semester_start'', PNone), (''second_semester_end'', PInt 1)] sample_school =
      (Inr \<lparr>pk = 1,
             cols = [(''label'', PInt 1), (''language'', PStr ''es''),
                     (''first_semester_start'', PInt 1), (''first_semester_end'', PNone),
                     (''second_semester_start'', PNone), (''second_semester_end'', PInt 1),
                     (''level'', PNone), (''degree'', PInt 1)]\<rparr>,
       sample_school(Course :=
          [\<lparr>pk = 1,
            cols = [(''label'', PInt 1), (''language'', PStr ''es''),
                    (''first_semester_start'', PInt 1), (''first_semester_end'', PNone),
                    (''second_semester_start'', PNone), (''second_semester_end'', PInt 1),
                    (''level'', PNone), (''degree'', PInt 1)]\<rparr>]))
   \<and> create Course
        [(''label'', PInt 1), (''degree'', PInt 1),
         (''first_semester_start'', PNone), (''first_semester_end'', PNone),
         (''second_semester_start'', PNone), (''second_semester_end'', PNone)] sample_school =
      (Inr \<lparr>pk = 1,
             cols = [(''label'', PInt 1), (''language'', PStr ''es''),
                     (''first_semester_start'', PNone), (''first_semester_end'', PNone),
                     (''second_semester_start'', PNone), (''second_semester_end'', PNone),
                     (''level'', PNone), (''degree'', PInt 1)]\<rparr>,
       sample_school(Course :=
          [\<lparr>pk = 1,
            cols = [(''label'', PInt 1), (''language'', PStr ''es''),
                    (''first_semester_start'', PNone), (''first_semester_end'', PNone),
                    (''second_semester_start'', PNone), (''second_semester_end'', PNone),
                    (''level'', PNone), (''degree'', PInt 1)]\<rparr>]))"
proof -
  have l: "1 \<in> set (pks sample_school CourseLabel)"
    by (simp add: pks_def sample_school_tables)
  have g: "1 \<in> set (pks sample_school Degree)"
    by (simp add: pks_def sample_school_tables)
  have s: "ref_ok sample_school SemesterDate (PInt 1)"
    by (simp add: pks_def sample_school_tables)
  have n: "ref_ok sample_school SemesterDate PNone" by simp
  show ?thesis
    using l g s n
      course_semester_dates_nullable [OF l g s n n s]
      course_semester_dates_nullable [OF l g n n n n]
    by (simp add: sample_school_tables next_pk_def)
qed

end
